theory Spec2Isabelle
  imports Main "HOL-Library.AList"
begin

section \<open>Python strings\<close>

text \<open>
  A Python \<open>str\<close> is a sequence of Unicode code points, and \<open>len\<close> counts code points.
  The validator names one code point beyond the 8-bit range itself (the arrow U+2192), so
  text is a list of code points. \<open>ustr\<close> reads an ASCII literal as such a list.
\<close>

type_synonym ustring = "nat list"

definition ustr :: "string \<Rightarrow> ustring" where
  "ustr s = map of_char s"

definition NL :: nat where
  "NL = 10"

definition ARROW :: nat where
  "ARROW = 8594"

text \<open>
  \<open>str.isspace\<close> for one code point, which is also what \<open>\s\<close> matches in a \<open>str\<close>
  pattern: the white space of Unicode as CPython tabulates it.
\<close>

definition isspace :: "nat \<Rightarrow> bool" where
  "isspace c \<longleftrightarrow>
     (9 \<le> c \<and> c \<le> 13) \<or> (28 \<le> c \<and> c \<le> 32) \<or> c = 133 \<or> c = 160 \<or> c = 5760 \<or>
     (8192 \<le> c \<and> c \<le> 8202) \<or> c = 8232 \<or> c = 8233 \<or> c = 8239 \<or> c = 8287 \<or> c = 12288"

subsection \<open>The Unicode character database\<close>

text \<open>
  \<open>\d\<close>, \<open>\w\<close>, \<open>int\<close> and \<open>str.lower\<close> read the Unicode character database of the
  interpreter. The tables below are those of Unicode 14.0.0, the version of CPython 3.11:
  each is a list of runs of code points, in ascending order, and \<open>in_runs\<close> looks a code
  point up in such a list.
\<close>

fun in_runs :: "(nat \<times> nat) list \<Rightarrow> nat \<Rightarrow> bool" where
  "in_runs [] c = False"
| "in_runs ((a, b) # rs) c =
     (if c < a then False else if c \<le> b then True else in_runs rs c)"

text \<open>
  The decimal digits (category \<open>Nd\<close>), which is what \<open>\d\<close> matches in a \<open>str\<close> pattern.
  Every run holds the digits 0 to 9 in order, once or several times over, so the value
  of a digit is its offset in its run modulo 10.
\<close>

definition DIGIT_RUNS :: "(nat \<times> nat) list" where
  "DIGIT_RUNS =
     [
      (48, 57), (1632, 1641), (1776, 1785), (1984, 1993), (2406, 2415), (2534, 2543), (2662,
      2671), (2790, 2799), (2918, 2927), (3046, 3055), (3174, 3183), (3302, 3311), (3430, 3439),
      (3558, 3567), (3664, 3673), (3792, 3801), (3872, 3881), (4160, 4169), (4240, 4249), (6112,
      6121), (6160, 6169), (6470, 6479), (6608, 6617), (6784, 6793), (6800, 6809), (6992, 7001),
      (7088, 7097), (7232, 7241), (7248, 7257), (42528, 42537), (43216, 43225), (43264, 43273),
      (43472, 43481), (43504, 43513), (43600, 43609), (44016, 44025), (65296, 65305), (66720,
      66729), (68912, 68921), (69734, 69743), (69872, 69881), (69942, 69951), (70096, 70105),
      (70384, 70393), (70736, 70745), (70864, 70873), (71248, 71257), (71360, 71369), (71472,
      71481), (71904, 71913), (72016, 72025), (72784, 72793), (73040, 73049), (73120, 73129),
      (92768, 92777), (92864, 92873), (93008, 93017), (120782, 120831), (123200, 123209), (123632,
      123641), (125264, 125273), (130032, 130041)
     ]"

definition isdigit :: "nat \<Rightarrow> bool" where
  "isdigit c = in_runs DIGIT_RUNS c"

fun digit_in :: "(nat \<times> nat) list \<Rightarrow> nat \<Rightarrow> nat" where
  "digit_in [] c = 0"
| "digit_in ((a, b) # rs) c = (if c \<le> b then (c - a) mod 10 else digit_in rs c)"

definition digit_value :: "nat \<Rightarrow> nat" where
  "digit_value c = digit_in DIGIT_RUNS c"

text \<open>
  The code points that \<open>\w\<close> matches in a \<open>str\<close> pattern: the alphanumeric ones
  (\<open>str.isalnum\<close>) and the underscore.
\<close>

definition WORD_RUNS :: "(nat \<times> nat) list" where
  "WORD_RUNS =
     [
      (48, 57), (65, 90), (95, 95), (97, 122), (170, 170), (178, 179), (181, 181), (185, 186),
      (188, 190), (192, 214), (216, 246), (248, 705), (710, 721), (736, 740), (748, 748), (750,
      750), (880, 884), (886, 887), (890, 893), (895, 895), (902, 902), (904, 906), (908, 908),
      (910, 929), (931, 1013), (1015, 1153), (1162, 1327), (1329, 1366), (1369, 1369), (1376,
      1416), (1488, 1514), (1519, 1522), (1568, 1610), (1632, 1641), (1646, 1647), (1649, 1747),
      (1749, 1749), (1765, 1766), (1774, 1788), (1791, 1791), (1808, 1808), (1810, 1839), (1869,
      1957), (1969, 1969), (1984, 2026), (2036, 2037), (2042, 2042), (2048, 2069), (2074, 2074),
      (2084, 2084), (2088, 2088), (2112, 2136), (2144, 2154), (2160, 2183), (2185, 2190), (2208,
      2249), (2308, 2361), (2365, 2365), (2384, 2384), (2392, 2401), (2406, 2415), (2417, 2432),
      (2437, 2444), (2447, 2448), (2451, 2472), (2474, 2480), (2482, 2482), (2486, 2489), (2493,
      2493), (2510, 2510), (2524, 2525), (2527, 2529), (2534, 2545), (2548, 2553), (2556, 2556),
      (2565, 2570), (2575, 2576), (2579, 2600), (2602, 2608), (2610, 2611), (2613, 2614), (2616,
      2617), (2649, 2652), (2654, 2654), (2662, 2671), (2674, 2676), (2693, 2701), (2703, 2705),
      (2707, 2728), (2730, 2736), (2738, 2739), (2741, 2745), (2749, 2749), (2768, 2768), (2784,
      2785), (2790, 2799), (2809, 2809), (2821, 2828), (2831, 2832), (2835, 2856), (2858, 2864),
      (2866, 2867), (2869, 2873), (2877, 2877), (2908, 2909), (2911, 2913), (2918, 2927), (2929,
      2935), (2947, 2947), (2949, 2954), (2958, 2960), (2962, 2965), (2969, 2970), (2972, 2972),
      (2974, 2975), (2979, 2980), (2984, 2986), (2990, 3001), (3024, 3024), (3046, 3058), (3077,
      3084), (3086, 3088), (3090, 3112), (3114, 3129), (3133, 3133), (3160, 3162), (3165, 3165),
      (3168, 3169), (3174, 3183), (3192, 3198), (3200, 3200), (3205, 3212), (3214, 3216), (3218,
      3240), (3242, 3251), (3253, 3257), (3261, 3261), (3293, 3294), (3296, 3297), (3302, 3311),
      (3313, 3314), (3332, 3340), (3342, 3344), (3346, 3386), (3389, 3389), (3406, 3406), (3412,
      3414), (3416, 3425), (3430, 3448), (3450, 3455), (3461, 3478), (3482, 3505), (3507, 3515),
      (3517, 3517), (3520, 3526), (3558, 3567), (3585, 3632), (3634, 3635), (3648, 3654), (3664,
      3673), (3713, 3714), (3716, 3716), (3718, 3722), (3724, 3747), (3749, 3749), (3751, 3760),
      (3762, 3763), (3773, 3773), (3776, 3780), (3782, 3782), (3792, 3801), (3804, 3807), (3840,
      3840), (3872, 3891), (3904, 3911), (3913, 3948), (3976, 3980), (4096, 4138), (4159, 4169),
      (4176, 4181), (4186, 4189), (4193, 4193), (4197, 4198), (4206, 4208), (4213, 4225), (4238,
      4238), (4240, 4249), (4256, 4293), (4295, 4295), (4301, 4301), (4304, 4346), (4348, 4680),
      (4682, 4685), (4688, 4694), (4696, 4696), (4698, 4701), (4704, 4744), (4746, 4749), (4752,
      4784), (4786, 4789), (4792, 4798), (4800, 4800), (4802, 4805), (4808, 4822), (4824, 4880),
      (4882, 4885), (4888, 4954), (4969, 4988), (4992, 5007), (5024, 5109), (5112, 5117), (5121,
      5740), (5743, 5759), (5761, 5786), (5792, 5866), (5870, 5880), (5888, 5905), (5919, 5937),
      (5952, 5969), (5984, 5996), (5998, 6000), (6016, 6067), (6103, 6103), (6108, 6108), (6112,
      6121), (6128, 6137), (6160, 6169), (6176, 6264), (6272, 6276), (6279, 6312), (6314, 6314),
      (6320, 6389), (6400, 6430), (6470, 6509), (6512, 6516), (6528, 6571), (6576, 6601), (6608,
      6618), (6656, 6678), (6688, 6740), (6784, 6793), (6800, 6809), (6823, 6823), (6917, 6963),
      (6981, 6988), (6992, 7001), (7043, 7072), (7086, 7141), (7168, 7203), (7232, 7241), (7245,
      7293), (7296, 7304), (7312, 7354), (7357, 7359), (7401, 7404), (7406, 7411), (7413, 7414),
      (7418, 7418), (7424, 7615), (7680, 7957), (7960, 7965), (7968, 8005), (8008, 8013), (8016,
      8023), (8025, 8025), (8027, 8027), (8029, 8029), (8031, 8061), (8064, 8116), (8118, 8124),
      (8126, 8126), (8130, 8132), (8134, 8140), (8144, 8147), (8150, 8155), (8160, 8172), (8178,
      8180), (8182, 8188), (8304, 8305), (8308, 8313), (8319, 8329), (8336, 8348), (8450, 8450),
      (8455, 8455), (8458, 8467), (8469, 8469), (8473, 8477), (8484, 8484), (8486, 8486), (8488,
      8488), (8490, 8493), (8495, 8505), (8508, 8511), (8517, 8521), (8526, 8526), (8528, 8585),
      (9312, 9371), (9450, 9471), (10102, 10131), (11264, 11492), (11499, 11502), (11506, 11507),
      (11517, 11517), (11520, 11557), (11559, 11559), (11565, 11565), (11568, 11623), (11631,
      11631), (11648, 11670), (11680, 11686), (11688, 11694), (11696, 11702), (11704, 11710),
      (11712, 11718), (11720, 11726), (11728, 11734), (11736, 11742), (11823, 11823), (12293,
      12295), (12321, 12329), (12337, 12341), (12344, 12348), (12353, 12438), (12445, 12447),
      (12449, 12538), (12540, 12543), (12549, 12591), (12593, 12686), (12690, 12693), (12704,
      12735), (12784, 12799), (12832, 12841), (12872, 12879), (12881, 12895), (12928, 12937),
      (12977, 12991), (13312, 19903), (19968, 42124), (42192, 42237), (42240, 42508), (42512,
      42539), (42560, 42606), (42623, 42653), (42656, 42735), (42775, 42783), (42786, 42888),
      (42891, 42954), (42960, 42961), (42963, 42963), (42965, 42969), (42994, 43009), (43011,
      43013), (43015, 43018), (43020, 43042), (43056, 43061), (43072, 43123), (43138, 43187),
      (43216, 43225), (43250, 43255), (43259, 43259), (43261, 43262), (43264, 43301), (43312,
      43334), (43360, 43388), (43396, 43442), (43471, 43481), (43488, 43492), (43494, 43518),
      (43520, 43560), (43584, 43586), (43588, 43595), (43600, 43609), (43616, 43638), (43642,
      43642), (43646, 43695), (43697, 43697), (43701, 43702), (43705, 43709), (43712, 43712),
      (43714, 43714), (43739, 43741), (43744, 43754), (43762, 43764), (43777, 43782), (43785,
      43790), (43793, 43798), (43808, 43814), (43816, 43822), (43824, 43866), (43868, 43881),
      (43888, 44002), (44016, 44025), (44032, 55203), (55216, 55238), (55243, 55291), (63744,
      64109), (64112, 64217), (64256, 64262), (64275, 64279), (64285, 64285), (64287, 64296),
      (64298, 64310), (64312, 64316), (64318, 64318), (64320, 64321), (64323, 64324), (64326,
      64433), (64467, 64829), (64848, 64911), (64914, 64967), (65008, 65019), (65136, 65140),
      (65142, 65276), (65296, 65305), (65313, 65338), (65345, 65370), (65382, 65470), (65474,
      65479), (65482, 65487), (65490, 65495), (65498, 65500), (65536, 65547), (65549, 65574),
      (65576, 65594), (65596, 65597), (65599, 65613), (65616, 65629), (65664, 65786), (65799,
      65843), (65856, 65912), (65930, 65931), (66176, 66204), (66208, 66256), (66273, 66299),
      (66304, 66339), (66349, 66378), (66384, 66421), (66432, 66461), (66464, 66499), (66504,
      66511), (66513, 66517), (66560, 66717), (66720, 66729), (66736, 66771), (66776, 66811),
      (66816, 66855), (66864, 66915), (66928, 66938), (66940, 66954), (66956, 66962), (66964,
      66965), (66967, 66977), (66979, 66993), (66995, 67001), (67003, 67004), (67072, 67382),
      (67392, 67413), (67424, 67431), (67456, 67461), (67463, 67504), (67506, 67514), (67584,
      67589), (67592, 67592), (67594, 67637), (67639, 67640), (67644, 67644), (67647, 67669),
      (67672, 67702), (67705, 67742), (67751, 67759), (67808, 67826), (67828, 67829), (67835,
      67867), (67872, 67897), (67968, 68023), (68028, 68047), (68050, 68096), (68112, 68115),
      (68117, 68119), (68121, 68149), (68160, 68168), (68192, 68222), (68224, 68255), (68288,
      68295), (68297, 68324), (68331, 68335), (68352, 68405), (68416, 68437), (68440, 68466),
      (68472, 68497), (68521, 68527), (68608, 68680), (68736, 68786), (68800, 68850), (68858,
      68899), (68912, 68921), (69216, 69246), (69248, 69289), (69296, 69297), (69376, 69415),
      (69424, 69445), (69457, 69460), (69488, 69505), (69552, 69579), (69600, 69622), (69635,
      69687), (69714, 69743), (69745, 69746), (69749, 69749), (69763, 69807), (69840, 69864),
      (69872, 69881), (69891, 69926), (69942, 69951), (69956, 69956), (69959, 69959), (69968,
      70002), (70006, 70006), (70019, 70066), (70081, 70084), (70096, 70106), (70108, 70108),
      (70113, 70132), (70144, 70161), (70163, 70187), (70272, 70278), (70280, 70280), (70282,
      70285), (70287, 70301), (70303, 70312), (70320, 70366), (70384, 70393), (70405, 70412),
      (70415, 70416), (70419, 70440), (70442, 70448), (70450, 70451), (70453, 70457), (70461,
      70461), (70480, 70480), (70493, 70497), (70656, 70708), (70727, 70730), (70736, 70745),
      (70751, 70753), (70784, 70831), (70852, 70853), (70855, 70855), (70864, 70873), (71040,
      71086), (71128, 71131), (71168, 71215), (71236, 71236), (71248, 71257), (71296, 71338),
      (71352, 71352), (71360, 71369), (71424, 71450), (71472, 71483), (71488, 71494), (71680,
      71723), (71840, 71922), (71935, 71942), (71945, 71945), (71948, 71955), (71957, 71958),
      (71960, 71983), (71999, 71999), (72001, 72001), (72016, 72025), (72096, 72103), (72106,
      72144), (72161, 72161), (72163, 72163), (72192, 72192), (72203, 72242), (72250, 72250),
      (72272, 72272), (72284, 72329), (72349, 72349), (72368, 72440), (72704, 72712), (72714,
      72750), (72768, 72768), (72784, 72812), (72818, 72847), (72960, 72966), (72968, 72969),
      (72971, 73008), (73030, 73030), (73040, 73049), (73056, 73061), (73063, 73064), (73066,
      73097), (73112, 73112), (73120, 73129), (73440, 73458), (73648, 73648), (73664, 73684),
      (73728, 74649), (74752, 74862), (74880, 75075), (77712, 77808), (77824, 78894), (82944,
      83526), (92160, 92728), (92736, 92766), (92768, 92777), (92784, 92862), (92864, 92873),
      (92880, 92909), (92928, 92975), (92992, 92995), (93008, 93017), (93019, 93025), (93027,
      93047), (93053, 93071), (93760, 93846), (93952, 94026), (94032, 94032), (94099, 94111),
      (94176, 94177), (94179, 94179), (94208, 100343), (100352, 101589), (101632, 101640),
      (110576, 110579), (110581, 110587), (110589, 110590), (110592, 110882), (110928, 110930),
      (110948, 110951), (110960, 111355), (113664, 113770), (113776, 113788), (113792, 113800),
      (113808, 113817), (119520, 119539), (119648, 119672), (119808, 119892), (119894, 119964),
      (119966, 119967), (119970, 119970), (119973, 119974), (119977, 119980), (119982, 119993),
      (119995, 119995), (119997, 120003), (120005, 120069), (120071, 120074), (120077, 120084),
      (120086, 120092), (120094, 120121), (120123, 120126), (120128, 120132), (120134, 120134),
      (120138, 120144), (120146, 120485), (120488, 120512), (120514, 120538), (120540, 120570),
      (120572, 120596), (120598, 120628), (120630, 120654), (120656, 120686), (120688, 120712),
      (120714, 120744), (120746, 120770), (120772, 120779), (120782, 120831), (122624, 122654),
      (123136, 123180), (123191, 123197), (123200, 123209), (123214, 123214), (123536, 123565),
      (123584, 123627), (123632, 123641), (124896, 124902), (124904, 124907), (124909, 124910),
      (124912, 124926), (124928, 125124), (125127, 125135), (125184, 125251), (125259, 125259),
      (125264, 125273), (126065, 126123), (126125, 126127), (126129, 126132), (126209, 126253),
      (126255, 126269), (126464, 126467), (126469, 126495), (126497, 126498), (126500, 126500),
      (126503, 126503), (126505, 126514), (126516, 126519), (126521, 126521), (126523, 126523),
      (126530, 126530), (126535, 126535), (126537, 126537), (126539, 126539), (126541, 126543),
      (126545, 126546), (126548, 126548), (126551, 126551), (126553, 126553), (126555, 126555),
      (126557, 126557), (126559, 126559), (126561, 126562), (126564, 126564), (126567, 126570),
      (126572, 126578), (126580, 126583), (126585, 126588), (126590, 126590), (126592, 126601),
      (126603, 126619), (126625, 126627), (126629, 126633), (126635, 126651), (127232, 127244),
      (130032, 130041), (131072, 173791), (173824, 177976), (177984, 178205), (178208, 183969),
      (183984, 191456), (194560, 195101), (196608, 201546)
     ]"

definition isword :: "nat \<Rightarrow> bool" where
  "isword c = in_runs WORD_RUNS c"

text \<open>
  The lower-case mapping of a single code point. A run \<open>(a, b, s, t)\<close> maps the code points
  \<open>a\<close>, \<open>a + s\<close>, ... up to \<open>b\<close> to \<open>t\<close>, \<open>t + s\<close>, ...; a code point in no run is its own
  lower case. U+0130 alone has a lower case of two code points.
\<close>

definition LOWER_RUNS :: "(nat \<times> nat \<times> nat \<times> nat) list" where
  "LOWER_RUNS =
     [
      (65, 90, 1, 97), (192, 214, 1, 224), (216, 222, 1, 248), (256, 302, 2, 257), (306, 310, 2,
      307), (313, 327, 2, 314), (330, 374, 2, 331), (376, 376, 1, 255), (377, 381, 2, 378), (385,
      385, 1, 595), (386, 388, 2, 387), (390, 390, 1, 596), (391, 391, 1, 392), (393, 394, 1,
      598), (395, 395, 1, 396), (398, 398, 1, 477), (399, 399, 1, 601), (400, 400, 1, 603), (401,
      401, 1, 402), (403, 403, 1, 608), (404, 404, 1, 611), (406, 406, 1, 617), (407, 407, 1,
      616), (408, 408, 1, 409), (412, 412, 1, 623), (413, 413, 1, 626), (415, 415, 1, 629), (416,
      420, 2, 417), (422, 422, 1, 640), (423, 423, 1, 424), (425, 425, 1, 643), (428, 428, 1,
      429), (430, 430, 1, 648), (431, 431, 1, 432), (433, 434, 1, 650), (435, 437, 2, 436), (439,
      439, 1, 658), (440, 440, 1, 441), (444, 444, 1, 445), (452, 452, 1, 454), (453, 453, 1,
      454), (455, 455, 1, 457), (456, 456, 1, 457), (458, 458, 1, 460), (459, 475, 2, 460), (478,
      494, 2, 479), (497, 497, 1, 499), (498, 500, 2, 499), (502, 502, 1, 405), (503, 503, 1,
      447), (504, 542, 2, 505), (544, 544, 1, 414), (546, 562, 2, 547), (570, 570, 1, 11365),
      (571, 571, 1, 572), (573, 573, 1, 410), (574, 574, 1, 11366), (577, 577, 1, 578), (579, 579,
      1, 384), (580, 580, 1, 649), (581, 581, 1, 652), (582, 590, 2, 583), (880, 882, 2, 881),
      (886, 886, 1, 887), (895, 895, 1, 1011), (902, 902, 1, 940), (904, 906, 1, 941), (908, 908,
      1, 972), (910, 911, 1, 973), (913, 929, 1, 945), (931, 939, 1, 963), (975, 975, 1, 983),
      (984, 1006, 2, 985), (1012, 1012, 1, 952), (1015, 1015, 1, 1016), (1017, 1017, 1, 1010),
      (1018, 1018, 1, 1019), (1021, 1023, 1, 891), (1024, 1039, 1, 1104), (1040, 1071, 1, 1072),
      (1120, 1152, 2, 1121), (1162, 1214, 2, 1163), (1216, 1216, 1, 1231), (1217, 1229, 2, 1218),
      (1232, 1326, 2, 1233), (1329, 1366, 1, 1377), (4256, 4293, 1, 11520), (4295, 4295, 1,
      11559), (4301, 4301, 1, 11565), (5024, 5103, 1, 43888), (5104, 5109, 1, 5112), (7312, 7354,
      1, 4304), (7357, 7359, 1, 4349), (7680, 7828, 2, 7681), (7838, 7838, 1, 223), (7840, 7934,
      2, 7841), (7944, 7951, 1, 7936), (7960, 7965, 1, 7952), (7976, 7983, 1, 7968), (7992, 7999,
      1, 7984), (8008, 8013, 1, 8000), (8025, 8031, 2, 8017), (8040, 8047, 1, 8032), (8072, 8079,
      1, 8064), (8088, 8095, 1, 8080), (8104, 8111, 1, 8096), (8120, 8121, 1, 8112), (8122, 8123,
      1, 8048), (8124, 8124, 1, 8115), (8136, 8139, 1, 8050), (8140, 8140, 1, 8131), (8152, 8153,
      1, 8144), (8154, 8155, 1, 8054), (8168, 8169, 1, 8160), (8170, 8171, 1, 8058), (8172, 8172,
      1, 8165), (8184, 8185, 1, 8056), (8186, 8187, 1, 8060), (8188, 8188, 1, 8179), (8486, 8486,
      1, 969), (8490, 8490, 1, 107), (8491, 8491, 1, 229), (8498, 8498, 1, 8526), (8544, 8559, 1,
      8560), (8579, 8579, 1, 8580), (9398, 9423, 1, 9424), (11264, 11311, 1, 11312), (11360,
      11360, 1, 11361), (11362, 11362, 1, 619), (11363, 11363, 1, 7549), (11364, 11364, 1, 637),
      (11367, 11371, 2, 11368), (11373, 11373, 1, 593), (11374, 11374, 1, 625), (11375, 11375, 1,
      592), (11376, 11376, 1, 594), (11378, 11378, 1, 11379), (11381, 11381, 1, 11382), (11390,
      11391, 1, 575), (11392, 11490, 2, 11393), (11499, 11501, 2, 11500), (11506, 11506, 1,
      11507), (42560, 42604, 2, 42561), (42624, 42650, 2, 42625), (42786, 42798, 2, 42787),
      (42802, 42862, 2, 42803), (42873, 42875, 2, 42874), (42877, 42877, 1, 7545), (42878, 42886,
      2, 42879), (42891, 42891, 1, 42892), (42893, 42893, 1, 613), (42896, 42898, 2, 42897),
      (42902, 42920, 2, 42903), (42922, 42922, 1, 614), (42923, 42923, 1, 604), (42924, 42924, 1,
      609), (42925, 42925, 1, 620), (42926, 42926, 1, 618), (42928, 42928, 1, 670), (42929, 42929,
      1, 647), (42930, 42930, 1, 669), (42931, 42931, 1, 43859), (42932, 42946, 2, 42933), (42948,
      42948, 1, 42900), (42949, 42949, 1, 642), (42950, 42950, 1, 7566), (42951, 42953, 2, 42952),
      (42960, 42960, 1, 42961), (42966, 42968, 2, 42967), (42997, 42997, 1, 42998), (65313, 65338,
      1, 65345), (66560, 66599, 1, 66600), (66736, 66771, 1, 66776), (66928, 66938, 1, 66967),
      (66940, 66954, 1, 66979), (66956, 66962, 1, 66995), (66964, 66965, 1, 67003), (68736, 68786,
      1, 68800), (71840, 71871, 1, 71872), (93760, 93791, 1, 93792), (125184, 125217, 1, 125218)
     ]"

fun lower_in :: "(nat \<times> nat \<times> nat \<times> nat) list \<Rightarrow> nat \<Rightarrow> nat" where
  "lower_in [] c = c"
| "lower_in ((a, b, s, t) # rs) c =
     (if c < a then c
      else if c \<le> b \<and> (c - a) mod s = 0 then t + (c - a)
      else lower_in rs c)"

definition to_lower_full :: "nat \<Rightarrow> ustring" where
  "to_lower_full c = (if c = 304 then [105, 775] else [lower_in LOWER_RUNS c])"

text \<open>
  The capital sigma U+03A3 becomes the final sigma U+03C2 when a cased letter comes before
  it and none after it, case-ignorable code points being skipped on both sides, and the
  small sigma U+03C3 otherwise. \<open>CASE_IGNORABLE_RUNS\<close> are the case-ignorable code points
  and \<open>CASED_RUNS\<close> the cased ones among the others (the test for a cased letter is only
  made on a code point that is not case-ignorable).
\<close>

definition CASE_IGNORABLE_RUNS :: "(nat \<times> nat) list" where
  "CASE_IGNORABLE_RUNS =
     [
      (39, 39), (46, 46), (58, 58), (94, 94), (96, 96), (168, 168), (173, 173), (175, 175), (180,
      180), (183, 184), (688, 879), (884, 885), (890, 890), (900, 901), (903, 903), (1155, 1161),
      (1369, 1369), (1375, 1375), (1425, 1469), (1471, 1471), (1473, 1474), (1476, 1477), (1479,
      1479), (1524, 1524), (1536, 1541), (1552, 1562), (1564, 1564), (1600, 1600), (1611, 1631),
      (1648, 1648), (1750, 1757), (1759, 1768), (1770, 1773), (1807, 1807), (1809, 1809), (1840,
      1866), (1958, 1968), (2027, 2037), (2042, 2042), (2045, 2045), (2070, 2093), (2137, 2139),
      (2184, 2184), (2192, 2193), (2200, 2207), (2249, 2306), (2362, 2362), (2364, 2364), (2369,
      2376), (2381, 2381), (2385, 2391), (2402, 2403), (2417, 2417), (2433, 2433), (2492, 2492),
      (2497, 2500), (2509, 2509), (2530, 2531), (2558, 2558), (2561, 2562), (2620, 2620), (2625,
      2626), (2631, 2632), (2635, 2637), (2641, 2641), (2672, 2673), (2677, 2677), (2689, 2690),
      (2748, 2748), (2753, 2757), (2759, 2760), (2765, 2765), (2786, 2787), (2810, 2815), (2817,
      2817), (2876, 2876), (2879, 2879), (2881, 2884), (2893, 2893), (2901, 2902), (2914, 2915),
      (2946, 2946), (3008, 3008), (3021, 3021), (3072, 3072), (3076, 3076), (3132, 3132), (3134,
      3136), (3142, 3144), (3146, 3149), (3157, 3158), (3170, 3171), (3201, 3201), (3260, 3260),
      (3263, 3263), (3270, 3270), (3276, 3277), (3298, 3299), (3328, 3329), (3387, 3388), (3393,
      3396), (3405, 3405), (3426, 3427), (3457, 3457), (3530, 3530), (3538, 3540), (3542, 3542),
      (3633, 3633), (3636, 3642), (3654, 3662), (3761, 3761), (3764, 3772), (3782, 3782), (3784,
      3789), (3864, 3865), (3893, 3893), (3895, 3895), (3897, 3897), (3953, 3966), (3968, 3972),
      (3974, 3975), (3981, 3991), (3993, 4028), (4038, 4038), (4141, 4144), (4146, 4151), (4153,
      4154), (4157, 4158), (4184, 4185), (4190, 4192), (4209, 4212), (4226, 4226), (4229, 4230),
      (4237, 4237), (4253, 4253), (4348, 4348), (4957, 4959), (5906, 5908), (5938, 5939), (5970,
      5971), (6002, 6003), (6068, 6069), (6071, 6077), (6086, 6086), (6089, 6099), (6103, 6103),
      (6109, 6109), (6155, 6159), (6211, 6211), (6277, 6278), (6313, 6313), (6432, 6434), (6439,
      6440), (6450, 6450), (6457, 6459), (6679, 6680), (6683, 6683), (6742, 6742), (6744, 6750),
      (6752, 6752), (6754, 6754), (6757, 6764), (6771, 6780), (6783, 6783), (6823, 6823), (6832,
      6862), (6912, 6915), (6964, 6964), (6966, 6970), (6972, 6972), (6978, 6978), (7019, 7027),
      (7040, 7041), (7074, 7077), (7080, 7081), (7083, 7085), (7142, 7142), (7144, 7145), (7149,
      7149), (7151, 7153), (7212, 7219), (7222, 7223), (7288, 7293), (7376, 7378), (7380, 7392),
      (7394, 7400), (7405, 7405), (7412, 7412), (7416, 7417), (7468, 7530), (7544, 7544), (7579,
      7679), (8125, 8125), (8127, 8129), (8141, 8143), (8157, 8159), (8173, 8175), (8189, 8190),
      (8203, 8207), (8216, 8217), (8228, 8228), (8231, 8231), (8234, 8238), (8288, 8292), (8294,
      8303), (8305, 8305), (8319, 8319), (8336, 8348), (8400, 8432), (11388, 11389), (11503,
      11505), (11631, 11631), (11647, 11647), (11744, 11775), (11823, 11823), (12293, 12293),
      (12330, 12333), (12337, 12341), (12347, 12347), (12441, 12446), (12540, 12542), (40981,
      40981), (42232, 42237), (42508, 42508), (42607, 42610), (42612, 42621), (42623, 42623),
      (42652, 42655), (42736, 42737), (42752, 42785), (42864, 42864), (42888, 42890), (42994,
      42996), (43000, 43001), (43010, 43010), (43014, 43014), (43019, 43019), (43045, 43046),
      (43052, 43052), (43204, 43205), (43232, 43249), (43263, 43263), (43302, 43309), (43335,
      43345), (43392, 43394), (43443, 43443), (43446, 43449), (43452, 43453), (43471, 43471),
      (43493, 43494), (43561, 43566), (43569, 43570), (43573, 43574), (43587, 43587), (43596,
      43596), (43632, 43632), (43644, 43644), (43696, 43696), (43698, 43700), (43703, 43704),
      (43710, 43711), (43713, 43713), (43741, 43741), (43756, 43757), (43763, 43764), (43766,
      43766), (43867, 43871), (43881, 43883), (44005, 44005), (44008, 44008), (44013, 44013),
      (64286, 64286), (64434, 64450), (65024, 65039), (65043, 65043), (65056, 65071), (65106,
      65106), (65109, 65109), (65279, 65279), (65287, 65287), (65294, 65294), (65306, 65306),
      (65342, 65342), (65344, 65344), (65392, 65392), (65438, 65439), (65507, 65507), (65529,
      65531), (66045, 66045), (66272, 66272), (66422, 66426), (67456, 67461), (67463, 67504),
      (67506, 67514), (68097, 68099), (68101, 68102), (68108, 68111), (68152, 68154), (68159,
      68159), (68325, 68326), (68900, 68903), (69291, 69292), (69446, 69456), (69506, 69509),
      (69633, 69633), (69688, 69702), (69744, 69744), (69747, 69748), (69759, 69761), (69811,
      69814), (69817, 69818), (69821, 69821), (69826, 69826), (69837, 69837), (69888, 69890),
      (69927, 69931), (69933, 69940), (70003, 70003), (70016, 70017), (70070, 70078), (70089,
      70092), (70095, 70095), (70191, 70193), (70196, 70196), (70198, 70199), (70206, 70206),
      (70367, 70367), (70371, 70378), (70400, 70401), (70459, 70460), (70464, 70464), (70502,
      70508), (70512, 70516), (70712, 70719), (70722, 70724), (70726, 70726), (70750, 70750),
      (70835, 70840), (70842, 70842), (70847, 70848), (70850, 70851), (71090, 71093), (71100,
      71101), (71103, 71104), (71132, 71133), (71219, 71226), (71229, 71229), (71231, 71232),
      (71339, 71339), (71341, 71341), (71344, 71349), (71351, 71351), (71453, 71455), (71458,
      71461), (71463, 71467), (71727, 71735), (71737, 71738), (71995, 71996), (71998, 71998),
      (72003, 72003), (72148, 72151), (72154, 72155), (72160, 72160), (72193, 72202), (72243,
      72248), (72251, 72254), (72263, 72263), (72273, 72278), (72281, 72283), (72330, 72342),
      (72344, 72345), (72752, 72758), (72760, 72765), (72767, 72767), (72850, 72871), (72874,
      72880), (72882, 72883), (72885, 72886), (73009, 73014), (73018, 73018), (73020, 73021),
      (73023, 73029), (73031, 73031), (73104, 73105), (73109, 73109), (73111, 73111), (73459,
      73460), (78896, 78904), (92912, 92916), (92976, 92982), (92992, 92995), (94031, 94031),
      (94095, 94111), (94176, 94177), (94179, 94180), (110576, 110579), (110581, 110587), (110589,
      110590), (113821, 113822), (113824, 113827), (118528, 118573), (118576, 118598), (119143,
      119145), (119155, 119170), (119173, 119179), (119210, 119213), (119362, 119364), (121344,
      121398), (121403, 121452), (121461, 121461), (121476, 121476), (121499, 121503), (121505,
      121519), (122880, 122886), (122888, 122904), (122907, 122913), (122915, 122916), (122918,
      122922), (123184, 123197), (123566, 123566), (123628, 123631), (125136, 125142), (125252,
      125259), (127995, 127999), (917505, 917505), (917536, 917631), (917760, 917999)
     ]"

definition CASED_RUNS :: "(nat \<times> nat) list" where
  "CASED_RUNS =
     [
      (65, 90), (97, 122), (170, 170), (181, 181), (186, 186), (192, 214), (216, 246), (248, 442),
      (444, 447), (452, 659), (661, 687), (880, 883), (886, 887), (891, 893), (895, 895), (902,
      902), (904, 906), (908, 908), (910, 929), (931, 1013), (1015, 1153), (1162, 1327), (1329,
      1366), (1376, 1416), (4256, 4293), (4295, 4295), (4301, 4301), (4304, 4346), (4349, 4351),
      (5024, 5109), (5112, 5117), (7296, 7304), (7312, 7354), (7357, 7359), (7424, 7467), (7531,
      7543), (7545, 7578), (7680, 7957), (7960, 7965), (7968, 8005), (8008, 8013), (8016, 8023),
      (8025, 8025), (8027, 8027), (8029, 8029), (8031, 8061), (8064, 8116), (8118, 8124), (8126,
      8126), (8130, 8132), (8134, 8140), (8144, 8147), (8150, 8155), (8160, 8172), (8178, 8180),
      (8182, 8188), (8450, 8450), (8455, 8455), (8458, 8467), (8469, 8469), (8473, 8477), (8484,
      8484), (8486, 8486), (8488, 8488), (8490, 8493), (8495, 8500), (8505, 8505), (8508, 8511),
      (8517, 8521), (8526, 8526), (8544, 8575), (8579, 8580), (9398, 9449), (11264, 11387),
      (11390, 11492), (11499, 11502), (11506, 11507), (11520, 11557), (11559, 11559), (11565,
      11565), (42560, 42605), (42624, 42651), (42786, 42863), (42865, 42887), (42891, 42894),
      (42896, 42954), (42960, 42961), (42963, 42963), (42965, 42969), (42997, 42998), (43002,
      43002), (43824, 43866), (43872, 43880), (43888, 43967), (64256, 64262), (64275, 64279),
      (65313, 65338), (65345, 65370), (66560, 66639), (66736, 66771), (66776, 66811), (66928,
      66938), (66940, 66954), (66956, 66962), (66964, 66965), (66967, 66977), (66979, 66993),
      (66995, 67001), (67003, 67004), (68736, 68786), (68800, 68850), (71840, 71903), (93760,
      93823), (119808, 119892), (119894, 119964), (119966, 119967), (119970, 119970), (119973,
      119974), (119977, 119980), (119982, 119993), (119995, 119995), (119997, 120003), (120005,
      120069), (120071, 120074), (120077, 120084), (120086, 120092), (120094, 120121), (120123,
      120126), (120128, 120132), (120134, 120134), (120138, 120144), (120146, 120485), (120488,
      120512), (120514, 120538), (120540, 120570), (120572, 120596), (120598, 120628), (120630,
      120654), (120656, 120686), (120688, 120712), (120714, 120744), (120746, 120770), (120772,
      120779), (122624, 122633), (122635, 122654), (125184, 125251), (127280, 127305), (127312,
      127337), (127344, 127369)
     ]"

definition final_sigma :: "ustring \<Rightarrow> ustring \<Rightarrow> nat" where
  "final_sigma before after =
     (case dropWhile (in_runs CASE_IGNORABLE_RUNS) before of
        [] \<Rightarrow> 963
      | b # bs \<Rightarrow>
          if in_runs CASED_RUNS b
          then (case dropWhile (in_runs CASE_IGNORABLE_RUNS) after of
                  [] \<Rightarrow> 962
                | a # as \<Rightarrow> if in_runs CASED_RUNS a then 963 else 962)
          else 963)"

text \<open>
  \<open>s.lower()\<close>, code point by code point; \<open>before\<close> is the text already passed, the
  nearest code point first.
\<close>

fun lower_from :: "ustring \<Rightarrow> ustring \<Rightarrow> ustring" where
  "lower_from before [] = []"
| "lower_from before (c # cs) =
     (if c = 931 then [final_sigma before cs] else to_lower_full c)
       @ lower_from (c # before) cs"

definition lower :: "ustring \<Rightarrow> ustring" where
  "lower s = lower_from [] s"

text \<open>
  \<open>re.IGNORECASE\<close> for a literal character of a pattern. Every literal of the patterns
  below that is matched under this flag is in the ASCII range, and such a character
  matches itself, the same letter in the other case, and for \<open>i\<close>, \<open>s\<close> and \<open>k\<close> also
  U+0130 and U+0131, U+017F, and U+212A: two code points match when \<open>fold_char\<close> makes
  them equal.
\<close>

definition fold_char :: "nat \<Rightarrow> nat" where
  "fold_char c =
     (if 65 \<le> c \<and> c \<le> 90 then c + 32
      else if c = 304 \<or> c = 305 then 105
      else if c = 383 then 115
      else if c = 8490 then 107
      else c)"

subsection \<open>String methods\<close>

text \<open>\<open>s.strip()\<close>, \<open>s.strip(chars)\<close> and \<open>s.lstrip(chars)\<close>.\<close>

definition strip :: "ustring \<Rightarrow> ustring" where
  "strip s = rev (dropWhile isspace (rev (dropWhile isspace s)))"

definition strip_chars :: "ustring \<Rightarrow> ustring \<Rightarrow> ustring" where
  "strip_chars cs s = rev (dropWhile (\<lambda>c. c \<in> set cs) (rev (dropWhile (\<lambda>c. c \<in> set cs) s)))"

definition lstrip_chars :: "ustring \<Rightarrow> ustring \<Rightarrow> ustring" where
  "lstrip_chars cs s = dropWhile (\<lambda>c. c \<in> set cs) s"

text \<open>\<open>s.split(sep)\<close> for a separator of one code point: empty pieces are kept.\<close>

fun split_on :: "nat \<Rightarrow> ustring \<Rightarrow> ustring list" where
  "split_on sep [] = [[]]"
| "split_on sep (c # cs) =
     (if c = sep then [] # split_on sep cs
      else (case split_on sep cs of
              [] \<Rightarrow> [[c]]
            | p # ps \<Rightarrow> (c # p) # ps))"

text \<open>\<open>s.split(sep, 1)\<close>: at most one split, at the first separator.\<close>

definition split_once :: "nat \<Rightarrow> ustring \<Rightarrow> ustring list" where
  "split_once sep s =
     (if sep \<in> set s
      then [takeWhile (\<lambda>c. c \<noteq> sep) s, tl (dropWhile (\<lambda>c. c \<noteq> sep) s)]
      else [s])"

text \<open>\<open>sub in s\<close> and \<open>s.startswith(sub)\<close>.\<close>

fun startswith :: "ustring \<Rightarrow> ustring \<Rightarrow> bool" where
  "startswith s [] = True"
| "startswith [] (p # ps) = False"
| "startswith (c # cs) (p # ps) = (c = p \<and> startswith cs ps)"

fun contains :: "ustring \<Rightarrow> ustring \<Rightarrow> bool" where
  "contains sub [] = (sub = [])"
| "contains sub (c # cs) = (startswith (c # cs) sub \<or> contains sub cs)"

text \<open>\<open>sep.join(parts)\<close>.\<close>

fun join :: "ustring \<Rightarrow> ustring list \<Rightarrow> ustring" where
  "join sep [] = []"
| "join sep [p] = p"
| "join sep (p # q # ps) = p @ sep @ join sep (q # ps)"

text \<open>
  \<open>str(n)\<close> for an integer, and \<open>int(s)\<close> for a string. \<open>int\<close> raises \<open>ValueError\<close> unless the
  string is a run of decimal digits (signs, underscores and surrounding blanks, which it
  accepts too, cannot reach it here), and also when the run has more digits than the
  interpreter's limit for the conversion, 4300 by default, which the validator leaves as
  it is. \<open>str\<close> has the same limit, but is only given integers that \<open>int\<close> returned, or
  lengths of lists.
\<close>

datatype error = ValueError | AttributeError | TypeError

fun digits_of :: "nat \<Rightarrow> nat \<Rightarrow> ustring \<Rightarrow> ustring" where
  "digits_of 0 n acc = acc"
| "digits_of (Suc fuel) n acc =
     (if n < 10 then (48 + n) # acc else digits_of fuel (n div 10) ((48 + n mod 10) # acc))"

definition str_nat :: "nat \<Rightarrow> ustring" where
  "str_nat n = digits_of (Suc n) n []"

definition str_int :: "int \<Rightarrow> ustring" where
  "str_int i = (if i < 0 then 45 # str_nat (nat (- i)) else str_nat (nat i))"

definition int_of_digits :: "ustring \<Rightarrow> int" where
  "int_of_digits s = foldl (\<lambda>a c. 10 * a + int (digit_value c)) 0 s"

definition MAX_STR_DIGITS :: nat where
  "MAX_STR_DIGITS = 4300"

definition py_int :: "ustring \<Rightarrow> error + int" where
  "py_int s =
     (if s \<noteq> [] \<and> list_all isdigit s \<and> length s \<le> MAX_STR_DIGITS
      then Inr (int_of_digits s)
      else Inl ValueError)"

text \<open>\<open>repr\<close> of a list of integers, as an f-string prints it: \<open>[1, 3]\<close>.\<close>

definition repr_int_list :: "int list \<Rightarrow> ustring" where
  "repr_int_list xs = ustr ''['' @ join (ustr '', '') (map str_int xs) @ ustr '']''"

section \<open>Regular expressions\<close>

text \<open>
  The patterns of the validator, as \<open>re\<close> reads them. Every repetition in them is over a
  single character class, greedy (\<open>*\<close>, \<open>+\<close>) or lazy (\<open>*?\<close>, \<open>+?\<close>); \<open>?\<close> is greedy. The matcher
  is the backtracking one of \<open>re\<close>: alternatives in the order written, the longest
  repetition first when greedy and the shortest first when lazy, and the first match found
  is the match.
\<close>

datatype flag = MULTILINE | DOTALL | IGNORECASE

datatype cclass =
    Space                    \<comment> \<open>\<open>\s\<close>\<close>
  | Digit                    \<comment> \<open>\<open>\d\<close>\<close>
  | Word                     \<comment> \<open>\<open>\w\<close>\<close>
  | Dot                      \<comment> \<open>\<open>.\<close>: any code point, a newline only under \<open>DOTALL\<close>\<close>
  | OneOf ustring            \<comment> \<open>\<open>[abc]\<close>\<close>
  | NoneOf ustring           \<comment> \<open>\<open>[^abc]\<close>\<close>
  | Either cclass cclass     \<comment> \<open>a set of several items, as \<open>[:\s]\<close>\<close>

datatype regex =
    Lit ustring              \<comment> \<open>literal text\<close>
  | Cls cclass               \<comment> \<open>one code point of a class\<close>
  | Star cclass              \<comment> \<open>\<open>c*\<close>\<close>
  | Plus cclass              \<comment> \<open>\<open>c+\<close>\<close>
  | StarLazy cclass          \<comment> \<open>\<open>c*?\<close>\<close>
  | PlusLazy cclass          \<comment> \<open>\<open>c+?\<close>\<close>
  | Opt regex                \<comment> \<open>\<open>(?:r)?\<close>\<close>
  | Seq regex regex          \<comment> \<open>\<open>r1 r2\<close>\<close>
  | Alt regex regex          \<comment> \<open>\<open>r1|r2\<close>\<close>
  | Group nat regex          \<comment> \<open>\<open>(r)\<close>, with its number\<close>
  | Ahead regex              \<comment> \<open>\<open>(?=r)\<close>\<close>
  | Bol                      \<comment> \<open>\<open>^\<close>\<close>
  | Eol                      \<comment> \<open>\<open>$\<close>\<close>
  | EndZ                     \<comment> \<open>\<open>\Z\<close>\<close>

fun seqs :: "regex list \<Rightarrow> regex" where
  "seqs [] = Lit []"
| "seqs [r] = r"
| "seqs (r # rs) = Seq r (seqs rs)"

fun in_class :: "flag list \<Rightarrow> cclass \<Rightarrow> nat \<Rightarrow> bool" where
  "in_class fl Space c = isspace c"
| "in_class fl Digit c = isdigit c"
| "in_class fl Word c = isword c"
| "in_class fl Dot c = (DOTALL \<in> set fl \<or> c \<noteq> NL)"
| "in_class fl (OneOf cs) c = (c \<in> set cs)"
| "in_class fl (NoneOf cs) c = (c \<notin> set cs)"
| "in_class fl (Either a b) c = (in_class fl a c \<or> in_class fl b c)"

text \<open>
  A position in the subject: the code point before it (for \<open>^\<close>) and the text from it on.
  The groups matched so far are a map from the group's number to its span, the positions
  where the group started and ended.
\<close>

type_synonym pos = "nat option \<times> ustring"
type_synonym groups = "nat \<Rightarrow> (pos \<times> pos) option"

definition eq_char :: "flag list \<Rightarrow> nat \<Rightarrow> nat \<Rightarrow> bool" where
  "eq_char fl a b = (if IGNORECASE \<in> set fl then fold_char a = fold_char b else a = b)"

fun match_lit :: "flag list \<Rightarrow> ustring \<Rightarrow> pos \<Rightarrow> pos option" where
  "match_lit fl [] p = Some p"
| "match_lit fl (a # as) (prev, []) = None"
| "match_lit fl (a # as) (prev, c # cs) =
     (if eq_char fl a c then match_lit fl as (Some c, cs) else None)"

text \<open>
  Repetition of a class, with the rest of the pattern as the continuation \<open>k\<close>: the greedy
  one takes a code point first and falls back to stopping here, the lazy one stops first.
\<close>

fun rep_greedy :: "(nat \<Rightarrow> bool) \<Rightarrow> (pos \<Rightarrow> 'a option) \<Rightarrow> pos \<Rightarrow> 'a option" where
  "rep_greedy P k (prev, []) = k (prev, [])"
| "rep_greedy P k (prev, c # cs) =
     (if P c
      then (case rep_greedy P k (Some c, cs) of
              Some r \<Rightarrow> Some r
            | None \<Rightarrow> k (prev, c # cs))
      else k (prev, c # cs))"

fun rep_lazy :: "(nat \<Rightarrow> bool) \<Rightarrow> (pos \<Rightarrow> 'a option) \<Rightarrow> pos \<Rightarrow> 'a option" where
  "rep_lazy P k (prev, []) = k (prev, [])"
| "rep_lazy P k (prev, c # cs) =
     (case k (prev, c # cs) of
        Some r \<Rightarrow> Some r
      | None \<Rightarrow> (if P c then rep_lazy P k (Some c, cs) else None))"

definition one_then :: "(nat \<Rightarrow> bool) \<Rightarrow> (pos \<Rightarrow> 'a option) \<Rightarrow> pos \<Rightarrow> 'a option" where
  "one_then P k p =
     (case snd p of
        [] \<Rightarrow> None
      | c # cs \<Rightarrow> (if P c then k (Some c, cs) else None))"

definition at_bol :: "flag list \<Rightarrow> pos \<Rightarrow> bool" where
  "at_bol fl p = (fst p = None \<or> (MULTILINE \<in> set fl \<and> fst p = Some NL))"

definition at_eol :: "flag list \<Rightarrow> pos \<Rightarrow> bool" where
  "at_eol fl p =
     (snd p = [] \<or> snd p = [NL] \<or> (MULTILINE \<in> set fl \<and> hd (snd p) = NL))"

text \<open>The text consumed between two positions of one subject.\<close>

definition consumed :: "pos \<Rightarrow> pos \<Rightarrow> ustring" where
  "consumed p q = take (length (snd p) - length (snd q)) (snd p)"

primrec rmatch :: "flag list \<Rightarrow> regex \<Rightarrow> (pos \<Rightarrow> groups \<Rightarrow> (pos \<times> groups) option) \<Rightarrow>
    pos \<Rightarrow> groups \<Rightarrow> (pos \<times> groups) option" where
  "rmatch fl (Lit s) k p g =
     (case match_lit fl s p of None \<Rightarrow> None | Some q \<Rightarrow> k q g)"
| "rmatch fl (Cls c) k p g = one_then (in_class fl c) (\<lambda>q. k q g) p"
| "rmatch fl (Star c) k p g = rep_greedy (in_class fl c) (\<lambda>q. k q g) p"
| "rmatch fl (Plus c) k p g =
     one_then (in_class fl c) (rep_greedy (in_class fl c) (\<lambda>q. k q g)) p"
| "rmatch fl (StarLazy c) k p g = rep_lazy (in_class fl c) (\<lambda>q. k q g) p"
| "rmatch fl (PlusLazy c) k p g =
     one_then (in_class fl c) (rep_lazy (in_class fl c) (\<lambda>q. k q g)) p"
| "rmatch fl (Opt r) k p g =
     (case rmatch fl r k p g of Some m \<Rightarrow> Some m | None \<Rightarrow> k p g)"
| "rmatch fl (Seq r1 r2) k p g = rmatch fl r1 (\<lambda>q h. rmatch fl r2 k q h) p g"
| "rmatch fl (Alt r1 r2) k p g =
     (case rmatch fl r1 k p g of Some m \<Rightarrow> Some m | None \<Rightarrow> rmatch fl r2 k p g)"
| "rmatch fl (Group n r) k p g =
     rmatch fl r (\<lambda>q h. k q (h(n \<mapsto> (p, q)))) p g"
| "rmatch fl (Ahead r) k p g =
     (case rmatch fl r (\<lambda>q h. Some (q, h)) p g of
        None \<Rightarrow> None
      | Some (q, h) \<Rightarrow> k p h)"
| "rmatch fl Bol k p g = (if at_bol fl p then k p g else None)"
| "rmatch fl Eol k p g = (if at_eol fl p then k p g else None)"
| "rmatch fl EndZ k p g = (if snd p = [] then k p g else None)"

text \<open>
  A match object: the positions where the match starts and ends, and the groups.
  \<open>group m n\<close> is \<open>m.group(n)\<close>, \<open>None\<close> for a group that took no part.
\<close>

record rematch =
  m_start :: pos
  m_end :: pos
  m_groups :: groups

definition group :: "rematch \<Rightarrow> nat \<Rightarrow> ustring option" where
  "group m n = (case m_groups m n of None \<Rightarrow> None | Some (p, q) \<Rightarrow> Some (consumed p q))"

text \<open>\<open>search_from\<close> tries the start positions from left to right.\<close>

fun search_from :: "flag list \<Rightarrow> regex \<Rightarrow> pos \<Rightarrow> rematch option" where
  "search_from fl r (prev, []) =
     (case rmatch fl r (\<lambda>q h. Some (q, h)) (prev, []) Map.empty of
        Some (q, h) \<Rightarrow> Some \<lparr>m_start = (prev, []), m_end = q, m_groups = h\<rparr>
      | None \<Rightarrow> None)"
| "search_from fl r (prev, c # cs) =
     (case rmatch fl r (\<lambda>q h. Some (q, h)) (prev, c # cs) Map.empty of
        Some (q, h) \<Rightarrow> Some \<lparr>m_start = (prev, c # cs), m_end = q, m_groups = h\<rparr>
      | None \<Rightarrow> search_from fl r (Some c, cs))"

definition re_search :: "regex \<Rightarrow> ustring \<Rightarrow> flag list \<Rightarrow> rematch option" where
  "re_search r s fl = search_from fl r (None, s)"

text \<open>
  \<open>re.finditer\<close>: the matches from left to right, each search starting where the match
  before it ended. \<open>re.split\<close>: the pieces of text between those matches. None of the
  patterns given to them here can match the empty string (each starts with literal text),
  so the branch for a match that consumed nothing only steps on, or stops splitting.
\<close>

fun finditer_from :: "flag list \<Rightarrow> regex \<Rightarrow> pos \<Rightarrow> rematch list" where
  "finditer_from fl r p =
     (case search_from fl r p of
        None \<Rightarrow> []
      | Some m \<Rightarrow>
          m # (if length (snd (m_end m)) < length (snd p)
               then finditer_from fl r (m_end m)
               else (case snd p of
                       [] \<Rightarrow> []
                     | c # cs \<Rightarrow> finditer_from fl r (Some c, cs))))"

declare finditer_from.simps [simp del]

definition re_finditer :: "regex \<Rightarrow> ustring \<Rightarrow> flag list \<Rightarrow> rematch list" where
  "re_finditer r s fl = finditer_from fl r (None, s)"

text \<open>\<open>re.findall\<close> for a pattern with one group: the text of group 1 of every match.\<close>

definition re_findall :: "regex \<Rightarrow> ustring \<Rightarrow> flag list \<Rightarrow> ustring list" where
  "re_findall r s fl =
     map (\<lambda>m. case group m 1 of None \<Rightarrow> [] | Some t \<Rightarrow> t) (re_finditer r s fl)"

fun split_from :: "flag list \<Rightarrow> regex \<Rightarrow> pos \<Rightarrow> ustring list" where
  "split_from fl r p =
     (case search_from fl r p of
        None \<Rightarrow> [snd p]
      | Some m \<Rightarrow>
          (if length (snd (m_end m)) < length (snd p)
           then consumed p (m_start m) # split_from fl r (m_end m)
           else [snd p]))"

declare split_from.simps [simp del]

definition re_split :: "regex \<Rightarrow> ustring \<Rightarrow> ustring list" where
  "re_split r s = split_from [] r (None, s)"

section \<open>The data model\<close>

text \<open>
  \<open>Step\<close> and \<open>ValidationResult\<close> are the dataclasses of the source. An error-handling
  entry is the dictionary with the keys \<open>condition\<close> and \<open>action\<close>; the \<open>info\<close> dictionary
  has a fixed set of keys. \<open>self.meta\<close> is a dictionary built by assignment, kept as an
  association list: a key assigned again keeps its place and takes the new value.
\<close>

record step =
  number :: int
  title :: ustring
  task :: "ustring option"
  dependencies :: "ustring list"
  save_as :: "ustring option"
  success_criteria :: "ustring list"
  flexibility :: "ustring option"
  flexibility_level :: ustring
  constraints :: "ustring list"
  error_handling :: "(ustring \<times> ustring) list"

record info =
  info_title :: "ustring option"
  step_count :: nat
  has_meta :: bool
  has_context :: bool
  has_finalization :: bool

record validation_result =
  valid :: bool
  errors :: "ustring list"
  warnings :: "ustring list"
  info :: info

text \<open>The fields of a \<open>WorkflowValidator\<close> (\<open>self.lines\<close> is never read).\<close>

record validator =
  self_content :: ustring
  self_errors :: "ustring list"
  self_warnings :: "ustring list"
  self_title :: "ustring option"
  self_meta :: "(ustring \<times> ustring) list"
  self_context :: "ustring option"
  self_steps :: "step list"
  self_finalization :: "ustring option"

definition init :: "ustring \<Rightarrow> validator" where
  "init content =
     \<lparr>self_content = content, self_errors = [], self_warnings = [], self_title = None,
      self_meta = [], self_context = None, self_steps = [], self_finalization = None\<rparr>"

definition new_step :: "int \<Rightarrow> ustring \<Rightarrow> step" where
  "new_step n t =
     \<lparr>number = n, title = t, task = None, dependencies = [], save_as = None,
      success_criteria = [], flexibility = None, flexibility_level = ustr ''guided'',
      constraints = [], error_handling = []\<rparr>"

definition VALID_FLEXIBILITY_LEVELS :: "ustring list" where
  "VALID_FLEXIBILITY_LEVELS = [ustr ''strict'', ustr ''guided'', ustr ''autonomous'']"

text \<open>
  Truth of an optional string, as \<open>if x:\<close> and \<open>bool(x)\<close> test it: \<open>None\<close> and the empty
  string are false.
\<close>

definition truthy :: "ustring option \<Rightarrow> bool" where
  "truthy x = (case x of None \<Rightarrow> False | Some s \<Rightarrow> s \<noteq> [])"

text \<open>
  \<open>m.group(n)\<close> is \<open>None\<close> when the group took no part in the match. A string method
  called on it then raises \<open>AttributeError\<close>, and \<open>int\<close> or \<open>re.search\<close> given it raise
  \<open>TypeError\<close>: \<open>group_or e m n\<close> is the group's text, or that exception.
\<close>

definition group_or :: "error \<Rightarrow> rematch \<Rightarrow> nat \<Rightarrow> error + ustring" where
  "group_or e m n = (case group m n of None \<Rightarrow> Inl e | Some t \<Rightarrow> Inr t)"

definition bind :: "error + 'a \<Rightarrow> ('a \<Rightarrow> error + 'b) \<Rightarrow> error + 'b" where
  "bind x f = (case x of Inl e \<Rightarrow> Inl e | Inr a \<Rightarrow> f a)"

section \<open>The patterns\<close>

text \<open>\<open>^#\s+(?:Workflow:\s*)?(.+)$\<close>\<close>

definition title_pattern :: regex where
  "title_pattern =
     seqs [Bol, Lit (ustr ''#''), Plus Space,
           Opt (Seq (Lit (ustr ''Workflow:'')) (Star Space)),
           Group 1 (Plus Dot), Eol]"

text \<open>The end of a section of the document: \<open>(?=\n##|\n---|\Z)\<close>\<close>

definition section_end :: regex where
  "section_end = Ahead (Alt (Lit (NL # ustr ''##'')) (Alt (Lit (NL # ustr ''---'')) EndZ))"

text \<open>\<open>##\s+Meta\s*\n(.*?)(?=\n##|\n---|\Z)\<close>\<close>

definition meta_pattern :: regex where
  "meta_pattern =
     seqs [Lit (ustr ''##''), Plus Space, Lit (ustr ''Meta''), Star Space, Lit [NL],
           Group 1 (StarLazy Dot), section_end]"

text \<open>\<open>##\s+Context\s*\n(.*?)(?=\n##|\n---|\Z)\<close>\<close>

definition context_pattern :: regex where
  "context_pattern =
     seqs [Lit (ustr ''##''), Plus Space, Lit (ustr ''Context''), Star Space, Lit [NL],
           Group 1 (StarLazy Dot), section_end]"

text \<open>\<open>##\s+Step\s+(\d+)[:\s]+(.+?)\n(.*?)(?=\n##\s+Step|\n##\s+Finalization|\Z)\<close>\<close>

definition step_pattern :: regex where
  "step_pattern =
     seqs [Lit (ustr ''##''), Plus Space, Lit (ustr ''Step''), Plus Space,
           Group 1 (Plus Digit), Plus (Either (OneOf (ustr '':'')) Space),
           Group 2 (PlusLazy Dot), Lit [NL], Group 3 (StarLazy Dot),
           Ahead (Alt (seqs [Lit (NL # ustr ''##''), Plus Space, Lit (ustr ''Step'')])
                 (Alt (seqs [Lit (NL # ustr ''##''), Plus Space, Lit (ustr ''Finalization'')])
                      EndZ))]"

text \<open>\<open>##\s+Finalization\s*\n(.*)$\<close>\<close>

definition finalization_pattern :: regex where
  "finalization_pattern =
     seqs [Lit (ustr ''##''), Plus Space, Lit (ustr ''Finalization''), Star Space, Lit [NL],
           Group 1 (Star Dot), Eol]"

text \<open>The end of a subsection of a step: \<open>(?=\n###|\Z)\<close>\<close>

definition subsection_end :: regex where
  "subsection_end = Ahead (Alt (Lit (NL # ustr ''###'')) EndZ)"

text \<open>\<open>###\s+Task\s*\n(.*?)(?=\n###|\Z)\<close>\<close>

definition task_pattern :: regex where
  "task_pattern =
     seqs [Lit (ustr ''###''), Plus Space, Lit (ustr ''Task''), Star Space, Lit [NL],
           Group 1 (StarLazy Dot), subsection_end]"

text \<open>\<open>###\s+Dependencies\s*\n(.*?)(?=\n###|\Z)\<close>\<close>

definition deps_pattern :: regex where
  "deps_pattern =
     seqs [Lit (ustr ''###''), Plus Space, Lit (ustr ''Dependencies''), Star Space, Lit [NL],
           Group 1 (StarLazy Dot), subsection_end]"

text \<open>The fenced code block, with a backquote written as its code point 96:
  three backquotes, \<open>(?:bash|sh)?\n(.*?)\<close>, three backquotes.\<close>

definition FENCE :: ustring where
  "FENCE = [96, 96, 96]"

definition code_block_pattern :: regex where
  "code_block_pattern =
     seqs [Lit FENCE, Opt (Alt (Lit (ustr ''bash'')) (Lit (ustr ''sh''))), Lit [NL],
           Group 1 (StarLazy Dot), Lit FENCE]"

text \<open>\<open>###\s+Save\s+as\s*\n[`"]?([^`"\n]+)[`"]?\<close>, the quote characters being the
  backquote (96) and the double quote (34).\<close>

definition QUOTES :: ustring where
  "QUOTES = [96, 34]"

definition save_pattern :: regex where
  "save_pattern =
     seqs [Lit (ustr ''###''), Plus Space, Lit (ustr ''Save''), Plus Space, Lit (ustr ''as''),
           Star Space, Lit [NL], Opt (Cls (OneOf QUOTES)),
           Group 1 (Plus (NoneOf (QUOTES @ [NL]))), Opt (Cls (OneOf QUOTES))]"

text \<open>\<open>###\s+Success\s+criteria\s*\n(.*?)(?=\n###|\Z)\<close>\<close>

definition criteria_pattern :: regex where
  "criteria_pattern =
     seqs [Lit (ustr ''###''), Plus Space, Lit (ustr ''Success''), Plus Space,
           Lit (ustr ''criteria''), Star Space, Lit [NL],
           Group 1 (StarLazy Dot), subsection_end]"

text \<open>\<open>###\s+Flexibility\s*(?:\[(\w+)\])?\s*\n(.*?)(?=\n###|\Z)\<close>\<close>

definition flex_pattern :: regex where
  "flex_pattern =
     seqs [Lit (ustr ''###''), Plus Space, Lit (ustr ''Flexibility''), Star Space,
           Opt (seqs [Lit (ustr ''[''), Group 1 (Plus Word), Lit (ustr '']'')]),
           Star Space, Lit [NL], Group 2 (StarLazy Dot), subsection_end]"

text \<open>\<open>###\s+Constraints\s*\n(.*?)(?=\n###|\Z)\<close>\<close>

definition const_pattern :: regex where
  "const_pattern =
     seqs [Lit (ustr ''###''), Plus Space, Lit (ustr ''Constraints''), Star Space, Lit [NL],
           Group 1 (StarLazy Dot), subsection_end]"

text \<open>\<open>###\s+If\s+something\s+goes\s+wrong\s*\n(.*?)(?=\n###|\Z)\<close>\<close>

definition error_pattern :: regex where
  "error_pattern =
     seqs [Lit (ustr ''###''), Plus Space, Lit (ustr ''If''), Plus Space,
           Lit (ustr ''something''), Plus Space, Lit (ustr ''goes''), Plus Space,
           Lit (ustr ''wrong''), Star Space, Lit [NL],
           Group 1 (StarLazy Dot), subsection_end]"

text \<open>The arrow: U+2192 or \<open>->\<close>.\<close>

definition arrow_pattern :: regex where
  "arrow_pattern = Alt (Lit [ARROW]) (Lit (ustr ''->''))"

section \<open>The parser\<close>

subsection \<open>\<open>_parse_meta\<close>\<close>

text \<open>
  The loop over the lines, with the dictionary built so far. \<open>key, value = line.split(':', 1)\<close>
  raises \<open>ValueError\<close> unless the split gives two pieces.
\<close>

fun parse_meta_lines ::
  "ustring list \<Rightarrow> (ustring \<times> ustring) list \<Rightarrow> error + (ustring \<times> ustring) list" where
  "parse_meta_lines [] meta = Inr meta"
| "parse_meta_lines (line # rest) meta =
     (if contains (ustr '':'') line
      then (case split_once 58 line of
              [key, val] \<Rightarrow>
                parse_meta_lines rest (AList.update (lower (strip key)) (strip val) meta)
            | _ \<Rightarrow> Inl ValueError)
      else parse_meta_lines rest meta)"

definition parse_meta :: "ustring \<Rightarrow> error + (ustring \<times> ustring) list" where
  "parse_meta content = parse_meta_lines (split_on NL (strip content)) []"

subsection \<open>\<open>_parse_step\<close>\<close>

definition extract_task :: "ustring \<Rightarrow> step \<Rightarrow> error + step" where
  "extract_task content st =
     (case re_search task_pattern content [DOTALL, IGNORECASE] of
        None \<Rightarrow> Inr st
      | Some m \<Rightarrow> bind (group_or AttributeError m 1) (\<lambda>t. Inr (st\<lparr>task := Some (strip t)\<rparr>)))"

text \<open>
  \<open>[cmd.strip() for block in code_blocks for cmd in block.strip().split('\n')
     if cmd.strip()]\<close>
\<close>

definition block_commands :: "ustring list \<Rightarrow> ustring list" where
  "block_commands code_blocks =
     concat (map (\<lambda>block. map strip (filter (\<lambda>cmd. strip cmd \<noteq> [])
                                        (split_on NL (strip block))))
                 code_blocks)"

definition dependencies_of :: "ustring \<Rightarrow> ustring list" where
  "dependencies_of text = block_commands (re_findall code_block_pattern text [DOTALL])"

definition extract_dependencies :: "ustring \<Rightarrow> step \<Rightarrow> error + step" where
  "extract_dependencies content st =
     (case re_search deps_pattern content [DOTALL, IGNORECASE] of
        None \<Rightarrow> Inr st
      | Some m \<Rightarrow> bind (group_or TypeError m 1)
                     (\<lambda>t. Inr (st\<lparr>dependencies := dependencies_of t\<rparr>)))"

definition extract_save_as :: "ustring \<Rightarrow> step \<Rightarrow> error + step" where
  "extract_save_as content st =
     (case re_search save_pattern content [IGNORECASE] of
        None \<Rightarrow> Inr st
      | Some m \<Rightarrow> bind (group_or AttributeError m 1)
                     (\<lambda>t. Inr (st\<lparr>save_as := Some (strip_chars QUOTES (strip t))\<rparr>)))"

text \<open>
  \<open>[line.strip().lstrip('- ').lstrip('* ') for line in text.split('\n')
     if line.strip() and line.strip().startswith(('-', '*'))]\<close>
\<close>

definition bullet_lines :: "ustring \<Rightarrow> ustring list" where
  "bullet_lines text =
     map (\<lambda>line. lstrip_chars (ustr ''* '') (lstrip_chars (ustr ''- '') (strip line)))
         (filter (\<lambda>line. strip line \<noteq> [] \<and>
                          (startswith (strip line) (ustr ''-'') \<or>
                           startswith (strip line) (ustr ''*'')))
                 (split_on NL text))"

definition extract_success_criteria :: "ustring \<Rightarrow> step \<Rightarrow> error + step" where
  "extract_success_criteria content st =
     (case re_search criteria_pattern content [DOTALL, IGNORECASE] of
        None \<Rightarrow> Inr st
      | Some m \<Rightarrow> bind (group_or AttributeError m 1)
                     (\<lambda>t. Inr (st\<lparr>success_criteria := bullet_lines t\<rparr>)))"

definition extract_flexibility :: "ustring \<Rightarrow> step \<Rightarrow> error + step" where
  "extract_flexibility content st =
     (case re_search flex_pattern content [DOTALL, IGNORECASE] of
        None \<Rightarrow> Inr st
      | Some m \<Rightarrow>
          (let st1 = (case group m 1 of
                        None \<Rightarrow> st
                      | Some lv \<Rightarrow> if lv \<noteq> [] then st\<lparr>flexibility_level := lower lv\<rparr>
                                   else st)
           in bind (group_or AttributeError m 2)
                (\<lambda>t. Inr (st1\<lparr>flexibility := Some (strip t)\<rparr>))))"

definition extract_constraints :: "ustring \<Rightarrow> step \<Rightarrow> error + step" where
  "extract_constraints content st =
     (case re_search const_pattern content [DOTALL, IGNORECASE] of
        None \<Rightarrow> Inr st
      | Some m \<Rightarrow> bind (group_or AttributeError m 1)
                     (\<lambda>t. Inr (st\<lparr>constraints := bullet_lines t\<rparr>)))"

text \<open>
  The loop over the lines of the error-handling text: a line with an arrow is split on
  the arrows, after \<open>line.strip().lstrip('- ')\<close>, and appended when the split gives two parts.
\<close>

definition error_handling_entry :: "ustring \<Rightarrow> (ustring \<times> ustring) list" where
  "error_handling_entry line =
     (if contains [ARROW] line \<or> contains (ustr ''->'') line
      then (case re_split arrow_pattern (lstrip_chars (ustr ''- '') (strip line)) of
              [c, a] \<Rightarrow> [(strip c, strip a)]
            | _ \<Rightarrow> [])
      else [])"

definition error_handling_of :: "ustring \<Rightarrow> (ustring \<times> ustring) list" where
  "error_handling_of error_text = concat (map error_handling_entry (split_on NL error_text))"

definition extract_error_handling :: "ustring \<Rightarrow> step \<Rightarrow> error + step" where
  "extract_error_handling content st =
     (case re_search error_pattern content [DOTALL, IGNORECASE] of
        None \<Rightarrow> Inr st
      | Some m \<Rightarrow> bind (group_or AttributeError m 1)
                     (\<lambda>t. Inr (st\<lparr>error_handling := error_handling st @ error_handling_of t\<rparr>)))"

definition parse_step :: "int \<Rightarrow> ustring \<Rightarrow> ustring \<Rightarrow> error + step" where
  "parse_step n t content =
     bind (extract_task content (new_step n t)) (\<lambda>st.
     bind (extract_dependencies content st) (\<lambda>st.
     bind (extract_save_as content st) (\<lambda>st.
     bind (extract_success_criteria content st) (\<lambda>st.
     bind (extract_flexibility content st) (\<lambda>st.
     bind (extract_constraints content st) (\<lambda>st.
     extract_error_handling content st))))))"

subsection \<open>\<open>_parse_document\<close>\<close>

definition extract_title :: "validator \<Rightarrow> error + validator" where
  "extract_title v =
     (case re_search title_pattern (self_content v) [MULTILINE] of
        None \<Rightarrow> Inr v
      | Some m \<Rightarrow> bind (group_or AttributeError m 1)
                     (\<lambda>t. Inr (v\<lparr>self_title := Some (strip t)\<rparr>)))"

definition extract_meta :: "validator \<Rightarrow> error + validator" where
  "extract_meta v =
     (case re_search meta_pattern (self_content v) [DOTALL, IGNORECASE] of
        None \<Rightarrow> Inr v
      | Some m \<Rightarrow> bind (group_or AttributeError m 1) (\<lambda>t.
                   bind (parse_meta t) (\<lambda>meta. Inr (v\<lparr>self_meta := meta\<rparr>))))"

definition extract_context :: "validator \<Rightarrow> error + validator" where
  "extract_context v =
     (case re_search context_pattern (self_content v) [DOTALL, IGNORECASE] of
        None \<Rightarrow> Inr v
      | Some m \<Rightarrow> bind (group_or AttributeError m 1)
                     (\<lambda>t. Inr (v\<lparr>self_context := Some (strip t)\<rparr>)))"

text \<open>The body of the loop over the step matches, and the loop.\<close>

definition step_of_match :: "rematch \<Rightarrow> error + step" where
  "step_of_match m =
     bind (group_or TypeError m 1) (\<lambda>digits.
     bind (py_int digits) (\<lambda>n.
     bind (group_or AttributeError m 2) (\<lambda>t.
     bind (group_or TypeError m 3) (\<lambda>content.
     parse_step n (strip t) content))))"

fun steps_of_matches :: "rematch list \<Rightarrow> step list \<Rightarrow> error + step list" where
  "steps_of_matches [] acc = Inr acc"
| "steps_of_matches (m # ms) acc =
     bind (step_of_match m) (\<lambda>st. steps_of_matches ms (acc @ [st]))"

definition extract_steps :: "validator \<Rightarrow> error + validator" where
  "extract_steps v =
     bind (steps_of_matches (re_finditer step_pattern (self_content v) [DOTALL, IGNORECASE])
                            (self_steps v))
          (\<lambda>sts. Inr (v\<lparr>self_steps := sts\<rparr>))"

definition extract_finalization :: "validator \<Rightarrow> error + validator" where
  "extract_finalization v =
     (case re_search finalization_pattern (self_content v) [DOTALL, IGNORECASE] of
        None \<Rightarrow> Inr v
      | Some m \<Rightarrow> bind (group_or AttributeError m 1)
                     (\<lambda>t. Inr (v\<lparr>self_finalization := Some (strip t)\<rparr>)))"

definition parse_document :: "validator \<Rightarrow> error + validator" where
  "parse_document v =
     bind (extract_title v) (\<lambda>v.
     bind (extract_meta v) (\<lambda>v.
     bind (extract_context v) (\<lambda>v.
     bind (extract_steps v) (\<lambda>v.
     extract_finalization v))))"

section \<open>The rules\<close>

definition add_error :: "ustring \<Rightarrow> validator \<Rightarrow> validator" where
  "add_error msg v = v\<lparr>self_errors := self_errors v @ [msg]\<rparr>"

definition add_warning :: "ustring \<Rightarrow> validator \<Rightarrow> validator" where
  "add_warning msg v = v\<lparr>self_warnings := self_warnings v @ [msg]\<rparr>"

definition do_if :: "bool \<Rightarrow> (validator \<Rightarrow> validator) \<Rightarrow> validator \<Rightarrow> validator" where
  "do_if b f v = (if b then f v else v)"

subsection \<open>\<open>_validate_structure\<close>\<close>

definition MSG_NO_TITLE :: ustring where
  "MSG_NO_TITLE = ustr ''Missing workflow title (first H1 heading)''"

definition MSG_NO_STEPS :: ustring where
  "MSG_NO_STEPS = ustr ''Workflow must contain at least one step''"

definition MSG_NO_META :: ustring where
  "MSG_NO_META = ustr ''Consider adding a Meta section with version and author''"

definition MSG_NO_FINALIZATION :: ustring where
  "MSG_NO_FINALIZATION = ustr ''Consider adding a Finalization section''"

definition validate_structure :: "validator \<Rightarrow> validator" where
  "validate_structure v =
     (let v = do_if (\<not> truthy (self_title v)) (add_error MSG_NO_TITLE) v;
          v = do_if (self_steps v = []) (add_error MSG_NO_STEPS) v;
          v = do_if (self_meta v = []) (add_warning MSG_NO_META) v;
          v = do_if (\<not> truthy (self_finalization v)) (add_warning MSG_NO_FINALIZATION) v
      in v)"

subsection \<open>\<open>_validate_steps\<close>\<close>

definition prefix_of :: "step \<Rightarrow> ustring" where
  "prefix_of st = ustr ''Step '' @ str_int (number st)"

definition msg_no_task :: "step \<Rightarrow> ustring" where
  "msg_no_task st = prefix_of st @ ustr '': Missing required 'Task' section''"

definition msg_brief_task :: "step \<Rightarrow> ustring" where
  "msg_brief_task st = prefix_of st @ ustr '': Task description seems too brief''"

definition msg_bad_level :: "step \<Rightarrow> ustring" where
  "msg_bad_level st =
     prefix_of st @ ustr '': Invalid flexibility level ''
       @ [39] @ flexibility_level st @ [39] @ ustr ''. ''
       @ ustr ''Must be one of: '' @ join (ustr '', '') VALID_FLEXIBILITY_LEVELS"

definition msg_no_save_as :: "step \<Rightarrow> ustring" where
  "msg_no_save_as st =
     prefix_of st @ ustr '': Consider adding 'Save as' to create contract for next step''"

definition msg_no_criteria :: "step \<Rightarrow> ustring" where
  "msg_no_criteria st =
     prefix_of st @ ustr '': Consider adding 'Success criteria' for verification''"

definition msg_relative_path :: "step \<Rightarrow> ustring" where
  "msg_relative_path st =
     prefix_of st @ ustr '': 'Save as' path should be absolute (start with /)''"

text \<open>
  The body of the loop over the steps; \<open>n\<close> is \<open>len(self.steps)\<close>. \<open>len(step.task)\<close> and
  \<open>step.save_as.startswith\<close> are reached only for a string that is not empty.
\<close>

definition validate_step :: "nat \<Rightarrow> step \<Rightarrow> validator \<Rightarrow> validator" where
  "validate_step n st v =
     (let v = (if \<not> truthy (task st) then add_error (msg_no_task st) v
               else if length (case task st of Some t \<Rightarrow> t | None \<Rightarrow> []) < 10
                    then add_warning (msg_brief_task st) v
               else v);
          v = do_if (flexibility_level st \<notin> set VALID_FLEXIBILITY_LEVELS)
                (add_error (msg_bad_level st)) v;
          v = do_if (\<not> truthy (save_as st) \<and> number st < int n)
                (add_warning (msg_no_save_as st)) v;
          v = do_if (success_criteria st = []) (add_warning (msg_no_criteria st)) v;
          v = (case save_as st of
                 None \<Rightarrow> v
               | Some path \<Rightarrow>
                   do_if (path \<noteq> [] \<and> \<not> startswith path (ustr ''/''))
                     (add_warning (msg_relative_path st)) v)
      in v)"

definition validate_steps :: "validator \<Rightarrow> validator" where
  "validate_steps v = foldl (\<lambda>w st. validate_step (length (self_steps v)) st w) v (self_steps v)"

subsection \<open>\<open>_validate_step_flow\<close>\<close>

definition MSG_DUPLICATE :: ustring where
  "MSG_DUPLICATE = ustr ''Duplicate step numbers found''"

definition MSG_GAP :: ustring where
  "MSG_GAP = ustr ''Gap in step numbering detected''"

definition msg_not_sequential :: "int list \<Rightarrow> int list \<Rightarrow> ustring" where
  "msg_not_sequential found expected =
     ustr ''Step numbers are not sequential. Found: '' @ repr_int_list found
       @ ustr '', '' @ ustr ''Expected: '' @ repr_int_list expected"

text \<open>
  The loop that looks for a gap stops at the first one (\<open>break\<close>), so it adds the warning
  when some index in \<open>range(len(numbers) - 1)\<close> shows a gap.
\<close>

definition has_gap :: "int list \<Rightarrow> bool" where
  "has_gap numbers =
     list_ex (\<lambda>i. sort numbers ! (i + 1) - sort numbers ! i > 1) [0 ..< length numbers - 1]"

definition validate_step_flow :: "validator \<Rightarrow> validator" where
  "validate_step_flow v =
     (if self_steps v = [] then v
      else
        (let numbers = map number (self_steps v);
             v = do_if (length numbers \<noteq> card (set numbers)) (add_error MSG_DUPLICATE) v;
             expected = map int [1 ..< length (self_steps v) + 1];
             v = do_if (sort numbers \<noteq> expected)
                   (add_warning (msg_not_sequential (sort numbers) expected)) v;
             v = do_if (has_gap numbers) (add_warning MSG_GAP) v
         in v))"

section \<open>\<open>validate\<close>\<close>

definition result_of :: "validator \<Rightarrow> validation_result" where
  "result_of v =
     \<lparr>valid = (length (self_errors v) = 0),
      errors = self_errors v,
      warnings = self_warnings v,
      info = \<lparr>info_title = self_title v,
              step_count = length (self_steps v),
              has_meta = (self_meta v \<noteq> []),
              has_context = truthy (self_context v),
              has_finalization = truthy (self_finalization v)\<rparr>\<rparr>"

definition validate :: "ustring \<Rightarrow> error + validation_result" where
  "validate content =
     bind (parse_document (init content))
       (\<lambda>v. Inr (result_of (validate_step_flow (validate_steps (validate_structure v)))))"

section \<open>What a match is\<close>

text \<open>
  The matches of a pattern, read off the pattern itself: \<open>den fl r p g q h\<close> says that \<open>r\<close>
  matches the text between the positions \<open>p\<close> and \<open>q\<close>, taking the groups \<open>g\<close> to \<open>h\<close>. The
  matcher finds only such matches, which is what tells which groups a match has set.
\<close>

primrec den :: "flag list \<Rightarrow> regex \<Rightarrow> pos \<Rightarrow> groups \<Rightarrow> pos \<Rightarrow> groups \<Rightarrow> bool" where
  "den fl (Lit s) p g q h \<longleftrightarrow> h = g \<and> (\<exists>xs. snd p = xs @ snd q \<and> list_all2 (eq_char fl) s xs)"
| "den fl (Cls c) p g q h \<longleftrightarrow> h = g \<and> (\<exists>x. snd p = x # snd q \<and> in_class fl c x)"
| "den fl (Star c) p g q h \<longleftrightarrow> h = g \<and> (\<exists>xs. snd p = xs @ snd q \<and> list_all (in_class fl c) xs)"
| "den fl (Plus c) p g q h \<longleftrightarrow>
     h = g \<and> (\<exists>xs. snd p = xs @ snd q \<and> xs \<noteq> [] \<and> list_all (in_class fl c) xs)"
| "den fl (StarLazy c) p g q h \<longleftrightarrow>
     h = g \<and> (\<exists>xs. snd p = xs @ snd q \<and> list_all (in_class fl c) xs)"
| "den fl (PlusLazy c) p g q h \<longleftrightarrow>
     h = g \<and> (\<exists>xs. snd p = xs @ snd q \<and> xs \<noteq> [] \<and> list_all (in_class fl c) xs)"
| "den fl (Opt r) p g q h \<longleftrightarrow> den fl r p g q h \<or> (q = p \<and> h = g)"
| "den fl (Seq r1 r2) p g q h \<longleftrightarrow> (\<exists>p' g'. den fl r1 p g p' g' \<and> den fl r2 p' g' q h)"
| "den fl (Alt r1 r2) p g q h \<longleftrightarrow> den fl r1 p g q h \<or> den fl r2 p g q h"
| "den fl (Group n r) p g q h \<longleftrightarrow> (\<exists>h'. den fl r p g q h' \<and> h = h'(n \<mapsto> (p, q)))"
| "den fl (Ahead r) p g q h \<longleftrightarrow> q = p \<and> (\<exists>q'. den fl r p g q' h)"
| "den fl Bol p g q h \<longleftrightarrow> q = p \<and> h = g \<and> at_bol fl p"
| "den fl Eol p g q h \<longleftrightarrow> q = p \<and> h = g \<and> at_eol fl p"
| "den fl EndZ p g q h \<longleftrightarrow> q = p \<and> h = g \<and> snd p = []"


section \<open>Texts of a given shape\<close>


section \<open>The matcher finds matches of the pattern\<close>

lemma ex2I: "P a b \<Longrightarrow> \<exists>x y. P x y"
  by (rule exI, rule exI)

lemma match_lit_sound:
  "match_lit fl s p = Some q \<Longrightarrow> \<exists>xs. snd p = xs @ snd q \<and> list_all2 (eq_char fl) s xs"
proof (induction fl s p rule: match_lit.induct)
  case (1 fl p)
  then have "snd p = [] @ snd q \<and> list_all2 (eq_char fl) [] []" by simp
  then show ?case by (rule exI[of _ "[]"])
next
  case (2 fl a as prev)
  then show ?case by simp
next
  case (3 fl a as prev c cs)
  from "3.prems" have e: "eq_char fl a c" by (simp split: if_splits)
  with "3.prems" have "match_lit fl as (Some c, cs) = Some q" by simp
  from "3.IH"[OF e this] obtain xs where xs: "snd (Some c, cs) = xs @ snd q \<and> list_all2 (eq_char fl) as xs"
    by (elim exE) (rule that)
  with e have "snd (prev, c # cs) = (c # xs) @ snd q \<and> list_all2 (eq_char fl) (a # as) (c # xs)" by simp
  then show ?case by (rule exI[of _ "c # xs"])
qed

lemma one_then_sound:
  "one_then P k p = Some res \<Longrightarrow> \<exists>x q. snd p = x # snd q \<and> P x \<and> k q = Some res"
proof (cases "snd p")
  case Nil
  assume "one_then P k p = Some res"
  with Nil show ?thesis by (simp add: one_then_def)
next
  case (Cons c cs)
  assume "one_then P k p = Some res"
  with Cons have "P c" "k (Some c, cs) = Some res" by (simp_all add: one_then_def split: if_splits)
  with Cons have "snd p = c # snd (Some c, cs) \<and> P c \<and> k (Some c, cs) = Some res" by simp
  then show ?thesis by (rule ex2I[of _ c "(Some c, cs)"])
qed

lemma rep_greedy_sound:
  "rep_greedy P k (prev, s) = Some res \<Longrightarrow>
     \<exists>xs q. s = xs @ snd q \<and> list_all P xs \<and> k q = Some res"
proof (induction s arbitrary: prev)
  case Nil
  then have "[] = [] @ snd (prev, []) \<and> list_all P [] \<and> k (prev, []) = Some res" by simp
  then show ?case by (rule ex2I[of _ "[]" "(prev, [])"])
next
  case (Cons c cs)
  have here: "k (prev, c # cs) = Some res \<Longrightarrow> ?case"
  proof -
    assume "k (prev, c # cs) = Some res"
    then have "c # cs = [] @ snd (prev, c # cs) \<and> list_all P [] \<and> k (prev, c # cs) = Some res"
      by simp
    then show ?case by (rule ex2I[of _ "[]" "(prev, c # cs)"])
  qed
  show ?case
  proof (cases "P c")
    case False
    with Cons.prems have "k (prev, c # cs) = Some res" by simp
    then show ?thesis by (rule here)
  next
    case True
    show ?thesis
    proof (cases "rep_greedy P k (Some c, cs)")
      case None
      with True Cons.prems have "k (prev, c # cs) = Some res" by simp
      then show ?thesis by (rule here)
    next
      case (Some r)
      with True Cons.prems have "rep_greedy P k (Some c, cs) = Some res" by simp
      from Cons.IH[OF this] obtain xs q where
        "cs = xs @ snd q \<and> list_all P xs \<and> k q = Some res" by (elim exE) (rule that)
      with True have "c # cs = (c # xs) @ snd q \<and> list_all P (c # xs) \<and> k q = Some res" by simp
      then show ?thesis by (rule ex2I[of _ "c # xs" q])
    qed
  qed
qed

lemma rep_lazy_sound:
  "rep_lazy P k (prev, s) = Some res \<Longrightarrow>
     \<exists>xs q. s = xs @ snd q \<and> list_all P xs \<and> k q = Some res"
proof (induction s arbitrary: prev)
  case Nil
  then have "[] = [] @ snd (prev, []) \<and> list_all P [] \<and> k (prev, []) = Some res" by simp
  then show ?case by (rule ex2I[of _ "[]" "(prev, [])"])
next
  case (Cons c cs)
  show ?case
  proof (cases "k (prev, c # cs)")
    case (Some r)
    with Cons.prems have "k (prev, c # cs) = Some res" by simp
    then have "c # cs = [] @ snd (prev, c # cs) \<and> list_all P [] \<and> k (prev, c # cs) = Some res"
      by simp
    then show ?thesis by (rule ex2I[of _ "[]" "(prev, c # cs)"])
  next
    case None
    with Cons.prems have pc: "P c" by (simp split: if_splits)
    with None Cons.prems have "rep_lazy P k (Some c, cs) = Some res" by simp
    from Cons.IH[OF this] obtain xs q where
      "cs = xs @ snd q \<and> list_all P xs \<and> k q = Some res" by (elim exE) (rule that)
    with pc have "c # cs = (c # xs) @ snd q \<and> list_all P (c # xs) \<and> k q = Some res" by simp
    then show ?thesis by (rule ex2I[of _ "c # xs" q])
  qed
qed

lemma rmatch_sound:
  "rmatch fl r k p g = Some res \<Longrightarrow> \<exists>q h. k q h = Some res \<and> den fl r p g q h"
proof (induction r arbitrary: k p g res)
  case (Lit s)
  then obtain q where a: "match_lit fl s p = Some q" "k q g = Some res"
    by (cases "match_lit fl s p") simp_all
  from match_lit_sound[OF a(1)] have "den fl (Lit s) p g q g" by simp
  with a(2) have "k q g = Some res \<and> den fl (Lit s) p g q g" by simp
  then show ?case by (rule ex2I[of _ q g])
next
  case (Cls c)
  then have "one_then (in_class fl c) (\<lambda>q. k q g) p = Some res" by simp
  from one_then_sound[OF this] obtain x q where
    "snd p = x # snd q \<and> in_class fl c x \<and> k q g = Some res" by (elim exE) (rule that)
  then have "k q g = Some res \<and> den fl (Cls c) p g q g" by simp
  then show ?case by (rule ex2I[of _ q g])
next
  case (Star c)
  then have "rep_greedy (in_class fl c) (\<lambda>q. k q g) (fst p, snd p) = Some res" by simp
  from rep_greedy_sound[OF this] obtain xs q where
    a: "snd p = xs @ snd q \<and> list_all (in_class fl c) xs \<and> k q g = Some res"
    by (elim exE) (rule that)
  then have "\<exists>xs. snd p = xs @ snd q \<and> list_all (in_class fl c) xs" by (intro exI[of _ xs]) simp
  with a have "k q g = Some res \<and> den fl (Star c) p g q g" by simp
  then show ?case by (rule ex2I[of _ q g])
next
  case (Plus c)
  then have "one_then (in_class fl c) (rep_greedy (in_class fl c) (\<lambda>q. k q g)) p = Some res" by simp
  from one_then_sound[OF this] obtain x q where a: "snd p = x # snd q \<and> in_class fl c x \<and>
      rep_greedy (in_class fl c) (\<lambda>q. k q g) q = Some res" by (elim exE) (rule that)
  then have "rep_greedy (in_class fl c) (\<lambda>q. k q g) (fst q, snd q) = Some res" by simp
  from rep_greedy_sound[OF this] obtain xs q' where
    b: "snd q = xs @ snd q' \<and> list_all (in_class fl c) xs \<and> k q' g = Some res"
    by (elim exE) (rule that)
  with a have "snd p = (x # xs) @ snd q' \<and> x # xs \<noteq> [] \<and> list_all (in_class fl c) (x # xs)"
    by simp
  then have "\<exists>ys. snd p = ys @ snd q' \<and> ys \<noteq> [] \<and> list_all (in_class fl c) ys"
    by (rule exI[of _ "x # xs"])
  with b have "k q' g = Some res \<and> den fl (Plus c) p g q' g" by simp
  then show ?case by (rule ex2I[of _ q' g])
next
  case (StarLazy c)
  then have "rep_lazy (in_class fl c) (\<lambda>q. k q g) (fst p, snd p) = Some res" by simp
  from rep_lazy_sound[OF this] obtain xs q where
    a: "snd p = xs @ snd q \<and> list_all (in_class fl c) xs \<and> k q g = Some res"
    by (elim exE) (rule that)
  then have "\<exists>xs. snd p = xs @ snd q \<and> list_all (in_class fl c) xs" by (intro exI[of _ xs]) simp
  with a have "k q g = Some res \<and> den fl (StarLazy c) p g q g" by simp
  then show ?case by (rule ex2I[of _ q g])
next
  case (PlusLazy c)
  then have "one_then (in_class fl c) (rep_lazy (in_class fl c) (\<lambda>q. k q g)) p = Some res" by simp
  from one_then_sound[OF this] obtain x q where a: "snd p = x # snd q \<and> in_class fl c x \<and>
      rep_lazy (in_class fl c) (\<lambda>q. k q g) q = Some res" by (elim exE) (rule that)
  then have "rep_lazy (in_class fl c) (\<lambda>q. k q g) (fst q, snd q) = Some res" by simp
  from rep_lazy_sound[OF this] obtain xs q' where
    b: "snd q = xs @ snd q' \<and> list_all (in_class fl c) xs \<and> k q' g = Some res"
    by (elim exE) (rule that)
  with a have "snd p = (x # xs) @ snd q' \<and> x # xs \<noteq> [] \<and> list_all (in_class fl c) (x # xs)"
    by simp
  then have "\<exists>ys. snd p = ys @ snd q' \<and> ys \<noteq> [] \<and> list_all (in_class fl c) ys"
    by (rule exI[of _ "x # xs"])
  with b have "k q' g = Some res \<and> den fl (PlusLazy c) p g q' g" by simp
  then show ?case by (rule ex2I[of _ q' g])
next
  case (Opt r)
  show ?case
  proof (cases "rmatch fl r k p g")
    case None
    with Opt.prems have "k p g = Some res \<and> den fl (Opt r) p g p g" by simp
    then show ?thesis by (rule ex2I[of _ p g])
  next
    case (Some m)
    with Opt.prems have "rmatch fl r k p g = Some res" by simp
    from Opt.IH[OF this] obtain q h where "k q h = Some res \<and> den fl r p g q h"
      by (elim exE) (rule that)
    then have "k q h = Some res \<and> den fl (Opt r) p g q h" by simp
    then show ?thesis by (rule ex2I[of _ q h])
  qed
next
  case (Seq r1 r2)
  from Seq.prems have "rmatch fl r1 (\<lambda>q h. rmatch fl r2 k q h) p g = Some res" by simp
  from Seq.IH(1)[OF this] obtain q h where a: "rmatch fl r2 k q h = Some res \<and> den fl r1 p g q h"
    by (elim exE) (rule that)
  then have "rmatch fl r2 k q h = Some res" by simp
  from Seq.IH(2)[OF this] obtain q' h' where b: "k q' h' = Some res \<and> den fl r2 q h q' h'"
    by (elim exE) (rule that)
  from a b have "den fl r1 p g q h \<and> den fl r2 q h q' h'" by simp
  then have "\<exists>p' g'. den fl r1 p g p' g' \<and> den fl r2 p' g' q' h'" by (rule ex2I[of _ q h])
  with b have "k q' h' = Some res \<and> den fl (Seq r1 r2) p g q' h'" by simp
  then show ?case by (rule ex2I[of _ q' h'])
next
  case (Alt r1 r2)
  show ?case
  proof (cases "rmatch fl r1 k p g")
    case None
    with Alt.prems have "rmatch fl r2 k p g = Some res" by simp
    from Alt.IH(2)[OF this] obtain q h where "k q h = Some res \<and> den fl r2 p g q h"
      by (elim exE) (rule that)
    then have "k q h = Some res \<and> den fl (Alt r1 r2) p g q h" by simp
    then show ?thesis by (rule ex2I[of _ q h])
  next
    case (Some m)
    with Alt.prems have "rmatch fl r1 k p g = Some res" by simp
    from Alt.IH(1)[OF this] obtain q h where "k q h = Some res \<and> den fl r1 p g q h"
      by (elim exE) (rule that)
    then have "k q h = Some res \<and> den fl (Alt r1 r2) p g q h" by simp
    then show ?thesis by (rule ex2I[of _ q h])
  qed
next
  case (Group n r)
  from Group.prems have "rmatch fl r (\<lambda>q h. k q (h(n \<mapsto> (p, q)))) p g = Some res" by simp
  from Group.IH[OF this] obtain q h where a: "k q (h(n \<mapsto> (p, q))) = Some res \<and> den fl r p g q h"
    by (elim exE) (rule that)
  then have "den fl r p g q h \<and> h(n \<mapsto> (p, q)) = h(n \<mapsto> (p, q))" by simp
  then have "\<exists>h'. den fl r p g q h' \<and> h(n \<mapsto> (p, q)) = h'(n \<mapsto> (p, q))" by (rule exI[of _ h])
  with a have "k q (h(n \<mapsto> (p, q))) = Some res \<and> den fl (Group n r) p g q (h(n \<mapsto> (p, q)))"
    by simp
  then show ?case by (rule ex2I[of _ q "h(n \<mapsto> (p, q))"])
next
  case (Ahead r)
  show ?case
  proof (cases "rmatch fl r (\<lambda>q h. Some (q, h)) p g")
    case None
    with Ahead.prems show ?thesis by simp
  next
    case (Some qh)
    obtain q h where qh: "qh = (q, h)" by (cases qh)
    from Some qh Ahead.prems have kp: "k p h = Some res" by simp
    from Some qh have "rmatch fl r (\<lambda>q h. Some (q, h)) p g = Some (q, h)" by simp
    from Ahead.IH[OF this] obtain q' h' where "Some (q', h') = Some (q, h) \<and> den fl r p g q' h'"
      by (elim exE) (rule that)
    then have "den fl r p g q h" by (elim conjE) simp
    then have "\<exists>q'. den fl r p g q' h" by (rule exI[of _ q])
    with kp have "k p h = Some res \<and> den fl (Ahead r) p g p h" by simp
    then show ?thesis by (rule ex2I[of _ p h])
  qed
next
  case Bol
  then have "k p g = Some res \<and> den fl Bol p g p g" by (simp split: if_splits)
  then show ?case by (rule ex2I[of _ p g])
next
  case Eol
  then have "k p g = Some res \<and> den fl Eol p g p g" by (simp split: if_splits)
  then show ?case by (rule ex2I[of _ p g])
next
  case EndZ
  then have "k p g = Some res \<and> den fl EndZ p g p g" by (simp split: if_splits)
  then show ?case by (rule ex2I[of _ p g])
qed

lemma rmatch_top_sound:
  "rmatch fl r (\<lambda>q h. Some (q, h)) p g = Some (q, h) \<Longrightarrow> den fl r p g q h"
proof -
  assume "rmatch fl r (\<lambda>q h. Some (q, h)) p g = Some (q, h)"
  from rmatch_sound[OF this] obtain q' h' where "Some (q', h') = Some (q, h) \<and> den fl r p g q' h'"
    by (elim exE) (rule that)
  then show ?thesis by (elim conjE) simp
qed

lemma search_from_sound:
  "search_from fl r (prev, s) = Some m \<Longrightarrow> den fl r (m_start m) Map.empty (m_end m) (m_groups m)"
proof (induction s arbitrary: prev)
  case Nil
  show ?case
  proof (cases "rmatch fl r (\<lambda>q h. Some (q, h)) (prev, []) Map.empty")
    case None
    with Nil show ?thesis by simp
  next
    case (Some qh)
    obtain q h where qh: "qh = (q, h)" by (cases qh)
    with Some Nil have m: "m = \<lparr>m_start = (prev, []), m_end = q, m_groups = h\<rparr>" by simp
    from Some qh have "rmatch fl r (\<lambda>q h. Some (q, h)) (prev, []) Map.empty = Some (q, h)" by simp
    from rmatch_top_sound[OF this] m show ?thesis by simp
  qed
next
  case (Cons c cs)
  show ?case
  proof (cases "rmatch fl r (\<lambda>q h. Some (q, h)) (prev, c # cs) Map.empty")
    case None
    with Cons.prems have "search_from fl r (Some c, cs) = Some m" by simp
    from Cons.IH[OF this] show ?thesis .
  next
    case (Some qh)
    obtain q h where qh: "qh = (q, h)" by (cases qh)
    with Some Cons.prems have m: "m = \<lparr>m_start = (prev, c # cs), m_end = q, m_groups = h\<rparr>" by simp
    from Some qh have "rmatch fl r (\<lambda>q h. Some (q, h)) (prev, c # cs) Map.empty = Some (q, h)" by simp
    from rmatch_top_sound[OF this] m show ?thesis by simp
  qed
qed

lemma re_search_sound:
  "re_search r s fl = Some m \<Longrightarrow> den fl r (m_start m) Map.empty (m_end m) (m_groups m)"
  unfolding re_search_def by (rule search_from_sound)

lemma finditer_from_sound:
  "m \<in> set (finditer_from fl r p) \<Longrightarrow> den fl r (m_start m) Map.empty (m_end m) (m_groups m)"
proof (induction fl r p rule: finditer_from.induct)
  case (1 fl r p)
  show ?case
  proof (cases "search_from fl r p")
    case None
    with "1.prems" show ?thesis by (simp add: finditer_from.simps[of fl r p])
  next
    case (Some m0)
    have s0: "den fl r (m_start m0) Map.empty (m_end m0) (m_groups m0)"
      using search_from_sound[of fl r "fst p" "snd p" m0] Some by simp
    show ?thesis
    proof (cases "m = m0")
      case True
      with s0 show ?thesis by simp
    next
      case False
      show ?thesis
      proof (cases "length (snd (m_end m0)) < length (snd p)")
        case True
        with False "1.prems" Some have "m \<in> set (finditer_from fl r (m_end m0))"
          by (simp add: finditer_from.simps[of fl r p])
        from "1.IH"(1)[OF Some True this] show ?thesis .
      next
        case nless: False
        show ?thesis
        proof (cases "snd p")
          case Nil
          with nless False "1.prems" Some show ?thesis
            by (simp add: finditer_from.simps[of fl r p])
        next
          case (Cons c cs)
          with nless False "1.prems" Some have "m \<in> set (finditer_from fl r (Some c, cs))"
            by (simp add: finditer_from.simps[of fl r p])
          from "1.IH"(2)[OF Some nless Cons this] show ?thesis .
        qed
      qed
    qed
  qed
qed

lemma title_groups: "den fl title_pattern p Map.empty q h \<Longrightarrow> h 1 \<noteq> None"
  by (auto simp: title_pattern_def)

section \<open>The groups of the patterns of the validator\<close>

lemma meta_groups: "den fl meta_pattern p Map.empty q h \<Longrightarrow> h 1 \<noteq> None"
  by (auto simp: meta_pattern_def section_end_def)
lemma context_groups: "den fl context_pattern p Map.empty q h \<Longrightarrow> h 1 \<noteq> None"
  by (auto simp: context_pattern_def section_end_def)
lemma finalization_groups: "den fl finalization_pattern p Map.empty q h \<Longrightarrow> h 1 \<noteq> None"
  by (auto simp: finalization_pattern_def)
lemma task_groups: "den fl task_pattern p Map.empty q h \<Longrightarrow> h 1 \<noteq> None"
  by (auto simp: task_pattern_def subsection_end_def)
lemma deps_groups: "den fl deps_pattern p Map.empty q h \<Longrightarrow> h 1 \<noteq> None"
  by (auto simp: deps_pattern_def subsection_end_def)
lemma save_groups: "den fl save_pattern p Map.empty q h \<Longrightarrow> h 1 \<noteq> None"
  by (auto simp: save_pattern_def)
lemma criteria_groups: "den fl criteria_pattern p Map.empty q h \<Longrightarrow> h 1 \<noteq> None"
  by (auto simp: criteria_pattern_def subsection_end_def)
lemma flex_groups: "den fl flex_pattern p Map.empty q h \<Longrightarrow> h 2 \<noteq> None"
  by (auto simp: flex_pattern_def subsection_end_def)
lemma const_groups: "den fl const_pattern p Map.empty q h \<Longrightarrow> h 1 \<noteq> None"
  by (auto simp: const_pattern_def subsection_end_def)
lemma error_groups: "den fl error_pattern p Map.empty q h \<Longrightarrow> h 1 \<noteq> None"
  by (auto simp: error_pattern_def subsection_end_def)

lemma consumed_append: "snd p = xs @ snd q \<Longrightarrow> consumed p q = xs"
  by (simp add: consumed_def)

lemma in_class_Digit: "in_class fl Digit = isdigit"
  by (rule ext) simp

lemma step_groups:
  "den fl step_pattern p Map.empty q h \<Longrightarrow>
     (\<exists>a b. h 1 = Some (a, b) \<and> consumed a b \<noteq> [] \<and> list_all isdigit (consumed a b))
     \<and> h 2 \<noteq> None \<and> h 3 \<noteq> None"
  by (auto simp: step_pattern_def consumed_append in_class_Digit)

section \<open>The parser returns\<close>

lemma bind_Inr [simp]: "bind (Inr a) f = f a"
  by (simp add: bind_def)

lemma contains_single: "contains [c] s \<longleftrightarrow> c \<in> set s"
  by (induction s) auto

lemma parse_meta_lines_total: "\<exists>m. parse_meta_lines ls meta = Inr m"
  by (induction ls arbitrary: meta) (simp_all add: ustr_def contains_single split_once_def)

lemma parse_meta_total: "\<exists>m. parse_meta t = Inr m"
  unfolding parse_meta_def by (rule parse_meta_lines_total)

lemma group_or_Inr:
  "m_groups m n \<noteq> None \<Longrightarrow> \<exists>t. group_or e m n = Inr t"
  by (auto simp: group_or_def group_def split: option.splits)

lemma extract_task_total: "\<exists>st'. extract_task content st = Inr st'"
proof (cases "re_search task_pattern content [DOTALL, IGNORECASE]")
  case None
  then show ?thesis by (simp add: extract_task_def)
next
  case (Some m)
  have g: "m_groups m 1 \<noteq> None" by (rule task_groups[OF re_search_sound[OF Some]])
  obtain t where "group_or AttributeError m 1 = Inr t" using group_or_Inr[OF g] by blast
  with Some show ?thesis by (simp add: extract_task_def)
qed

lemma extract_dependencies_total: "\<exists>st'. extract_dependencies content st = Inr st'"
proof (cases "re_search deps_pattern content [DOTALL, IGNORECASE]")
  case None
  then show ?thesis by (simp add: extract_dependencies_def)
next
  case (Some m)
  have g: "m_groups m 1 \<noteq> None" by (rule deps_groups[OF re_search_sound[OF Some]])
  obtain t where "group_or TypeError m 1 = Inr t" using group_or_Inr[OF g] by blast
  with Some show ?thesis by (simp add: extract_dependencies_def)
qed

lemma extract_save_as_total: "\<exists>st'. extract_save_as content st = Inr st'"
proof (cases "re_search save_pattern content [IGNORECASE]")
  case None
  then show ?thesis by (simp add: extract_save_as_def)
next
  case (Some m)
  have g: "m_groups m 1 \<noteq> None" by (rule save_groups[OF re_search_sound[OF Some]])
  obtain t where "group_or AttributeError m 1 = Inr t" using group_or_Inr[OF g] by blast
  with Some show ?thesis by (simp add: extract_save_as_def)
qed

lemma extract_success_criteria_total: "\<exists>st'. extract_success_criteria content st = Inr st'"
proof (cases "re_search criteria_pattern content [DOTALL, IGNORECASE]")
  case None
  then show ?thesis by (simp add: extract_success_criteria_def)
next
  case (Some m)
  have g: "m_groups m 1 \<noteq> None" by (rule criteria_groups[OF re_search_sound[OF Some]])
  obtain t where "group_or AttributeError m 1 = Inr t" using group_or_Inr[OF g] by blast
  with Some show ?thesis by (simp add: extract_success_criteria_def)
qed

lemma extract_flexibility_total: "\<exists>st'. extract_flexibility content st = Inr st'"
proof (cases "re_search flex_pattern content [DOTALL, IGNORECASE]")
  case None
  then show ?thesis by (simp add: extract_flexibility_def)
next
  case (Some m)
  have g: "m_groups m 2 \<noteq> None" by (rule flex_groups[OF re_search_sound[OF Some]])
  obtain t where "group_or AttributeError m 2 = Inr t" using group_or_Inr[OF g] by blast
  with Some show ?thesis by (simp add: extract_flexibility_def Let_def)
qed

lemma extract_constraints_total: "\<exists>st'. extract_constraints content st = Inr st'"
proof (cases "re_search const_pattern content [DOTALL, IGNORECASE]")
  case None
  then show ?thesis by (simp add: extract_constraints_def)
next
  case (Some m)
  have g: "m_groups m 1 \<noteq> None" by (rule const_groups[OF re_search_sound[OF Some]])
  obtain t where "group_or AttributeError m 1 = Inr t" using group_or_Inr[OF g] by blast
  with Some show ?thesis by (simp add: extract_constraints_def)
qed

lemma extract_error_handling_total: "\<exists>st'. extract_error_handling content st = Inr st'"
proof (cases "re_search error_pattern content [DOTALL, IGNORECASE]")
  case None
  then show ?thesis by (simp add: extract_error_handling_def)
next
  case (Some m)
  have g: "m_groups m 1 \<noteq> None" by (rule error_groups[OF re_search_sound[OF Some]])
  obtain t where "group_or AttributeError m 1 = Inr t" using group_or_Inr[OF g] by blast
  with Some show ?thesis by (simp add: extract_error_handling_def)
qed

lemma parse_step_total: "\<exists>st. parse_step n t content = Inr st"
proof -
  obtain s1 where 1: "extract_task content (new_step n t) = Inr s1"
    using extract_task_total by blast
  obtain s2 where 2: "extract_dependencies content s1 = Inr s2"
    using extract_dependencies_total by blast
  obtain s3 where 3: "extract_save_as content s2 = Inr s3"
    using extract_save_as_total by blast
  obtain s4 where 4: "extract_success_criteria content s3 = Inr s4"
    using extract_success_criteria_total by blast
  obtain s5 where 5: "extract_flexibility content s4 = Inr s5"
    using extract_flexibility_total by blast
  obtain s6 where 6: "extract_constraints content s5 = Inr s6"
    using extract_constraints_total by blast
  obtain s7 where 7: "extract_error_handling content s6 = Inr s7"
    using extract_error_handling_total by blast
  show ?thesis by (simp add: parse_step_def 1 2 3 4 5 6 7)
qed

section \<open>Running the validator on a given document\<close>

text \<open>
  The equations by which the model is run on a concrete document. \<open>isspace_lazy\<close> is
  \<open>isspace\<close> with the comparisons in the order of the code points.
\<close>

lemma isspace_lazy:
  "isspace c =
     (if c \<le> 32 then (if c \<le> 13 then 9 \<le> c else 28 \<le> c)
      else if c < 133 then False
      else (c = 133 \<or> c = 160 \<or> c = 5760 \<or> (8192 \<le> c \<and> c \<le> 8202) \<or> c = 8232 \<or>
            c = 8233 \<or> c = 8239 \<or> c = 8287 \<or> c = 12288))"
  unfolding isspace_def by auto

lemmas ev_defs =
  re_search_def re_finditer_def re_findall_def re_split_def
  title_pattern_def meta_pattern_def context_pattern_def step_pattern_def
  finalization_pattern_def section_end_def subsection_end_def task_pattern_def
  deps_pattern_def code_block_pattern_def save_pattern_def criteria_pattern_def
  flex_pattern_def const_pattern_def error_pattern_def arrow_pattern_def
  FENCE_def QUOTES_def ARROW_def NL_def ustr_def
  one_then_def at_bol_def at_eol_def eq_char_def fold_char_def
  isspace_lazy isdigit_def DIGIT_RUNS_def isword_def WORD_RUNS_def in_runs.simps
  lower_def lower_from.simps to_lower_full_def lower_in.simps LOWER_RUNS_def
  group_def group_or_def bind_def strip_def strip_chars_def lstrip_chars_def split_once_def
  extract_title_def extract_meta_def extract_context_def extract_steps_def
  extract_finalization_def parse_document_def parse_meta_def step_of_match_def
  parse_step_def new_step_def extract_task_def extract_dependencies_def
  extract_save_as_def extract_success_criteria_def extract_flexibility_def
  extract_constraints_def extract_error_handling_def block_commands_def
  dependencies_of_def bullet_lines_def error_handling_entry_def error_handling_of_def
  init_def truthy_def Let_def
  seqs.simps split_on.simps startswith.simps contains.simps join.simps in_class.simps
  match_lit.simps rep_greedy.simps rep_lazy.simps rmatch.simps search_from.simps
  finditer_from.simps split_from.simps parse_meta_lines.simps steps_of_matches.simps
  AList.update.simps

lemmas ev_int =
  consumed_def py_int_def int_of_digits_def digit_value_def digit_in.simps MAX_STR_DIGITS_def

lemmas ev_lib =
  option.case list.case prod.case sum.case if_True if_False simp_thms
  option.distinct option.inject list.distinct list.inject sum.distinct sum.inject
  flag.distinct prod.inject fst_conv snd_conv list.set empty_iff insert_iff
  rel_simps arith_simps of_char_Char horner_sum_simps of_bool_def
  one_plus_numeral numeral_plus_one one_add_one add_num_simps mult_num_simps
  numeral_times_numeral numeral_plus_numeral mult_1_right mult_1_left
  add_0_left add_0_right mult_zero_right mult_zero_left
  append.simps rev.simps dropWhile.simps takeWhile.simps take_Suc_Cons take_0
  list.size(3) length_Cons list.map filter.simps concat.simps list.pred_inject
  foldl.simps list.sel diff_Suc_Suc diff_zero Suc_less_eq zero_less_Suc not_less0
  fun_upd_apply rematch.simps validator.simps step.simps of_nat_numeral

lemmas ev_cong =
  if_weak_cong option.case_cong_weak list.case_cong_weak sum.case_cong_weak
  prod.case_cong_weak

lemma nat_one: "nat 1 = (1::nat)"
  by simp

lemmas ev_arith =
  nat_one le_Suc_numeral le_numeral_Suc less_Suc_numeral less_numeral_Suc
  pred_numeral_simps BitM.simps le0 Suc_le_mono diff_nat_numeral nat_numeral nat_0
  nat_neg_numeral cong_exp_iff_simps mod_by_1 mod_0 one_mod_two_eq_one one_neq_zero
  zero_neq_one

section \<open>A step number too long for \<open>int\<close>\<close>

text \<open>
  A greedy repetition over a run of one code point of its class, followed by a code point
  outside the class, tries the whole run first; and a search for a pattern that cannot
  start on that code point walks across the run.
\<close>

lemma rep_greedy_run:
  assumes "P d" and "\<not> P c" and "k (Some d, c # cs) \<noteq> None"
  shows "rep_greedy P k (Some d, replicate n d @ c # cs) = k (Some d, c # cs)"
proof (induction n)
  case 0
  from assms(2) show ?case by simp
next
  case (Suc n)
  from assms(3) obtain r where r: "k (Some d, c # cs) = Some r" by (cases "k (Some d, c # cs)") auto
  with Suc assms(1) show ?case by simp
qed

lemma search_skip:
  assumes "\<And>cs. rmatch fl r (\<lambda>q h. Some (q, h)) (Some d, d # cs) (\<lambda>x. None) = None"
  shows "search_from fl r (Some d, replicate n d @ rest) = search_from fl r (Some d, rest)"
  by (induction n) (simp_all add: assms)

lemma consumed_run: "consumed (pv, d # (replicate n d @ rest)) (pv', rest) = d # replicate n d"
  by (simp add: consumed_def)

lemma py_int_run: "MAX_STR_DIGITS \<le> n \<Longrightarrow> py_int (d # replicate n d) = Inl ValueError"
  by (simp add: py_int_def)

lemma validate_raises_run:
  assumes "MAX_STR_DIGITS \<le> n"
  shows "validate (ustr ''## Step 0'' @ replicate n 48 @ ustr '': x'' @ [NL]) = Inl ValueError"
  using assms
  by (simp only: validate_def ev_defs ev_lib search_skip rep_greedy_run consumed_run py_int_run
        cong: ev_cong)

text \<open>
  Claim C1 does not hold of the code: on a document whose one step heading carries a
  number of 4301 digits, \<open>int\<close> raises \<open>ValueError\<close> in the parser, and \<open>validate\<close> raises it
  instead of returning a result.
\<close>

theorem validate_raises_value_error:
  "validate (ustr ''## Step 0'' @ replicate 4300 48 @ ustr '': x'' @ [NL]) = Inl ValueError"
  by (rule validate_raises_run) (simp add: MAX_STR_DIGITS_def)

section \<open>What the rules add\<close>

text \<open>
  Each rule only appends messages: the parsed fields stay as they are, and the errors and
  the warnings after a rule are those before it followed by the messages of the rule.
\<close>

lemma add_error_simps [simp]:
  "self_errors (add_error m v) = self_errors v @ [m]"
  "self_warnings (add_error m v) = self_warnings v"
  "self_steps (add_error m v) = self_steps v"
  "self_meta (add_error m v) = self_meta v"
  "self_title (add_error m v) = self_title v"
  "self_context (add_error m v) = self_context v"
  "self_finalization (add_error m v) = self_finalization v"
  by (simp_all add: add_error_def)

lemma add_warning_simps [simp]:
  "self_errors (add_warning m v) = self_errors v"
  "self_warnings (add_warning m v) = self_warnings v @ [m]"
  "self_steps (add_warning m v) = self_steps v"
  "self_meta (add_warning m v) = self_meta v"
  "self_title (add_warning m v) = self_title v"
  "self_context (add_warning m v) = self_context v"
  "self_finalization (add_warning m v) = self_finalization v"
  by (simp_all add: add_warning_def)

lemma do_if_simps [simp]:
  "self_errors (do_if b (add_error m) v) = self_errors v @ (if b then [m] else [])"
  "self_warnings (do_if b (add_error m) v) = self_warnings v"
  "self_errors (do_if b (add_warning m) v) = self_errors v"
  "self_warnings (do_if b (add_warning m) v) = self_warnings v @ (if b then [m] else [])"
  "self_steps (do_if b (add_error m) v) = self_steps v"
  "self_steps (do_if b (add_warning m) v) = self_steps v"
  "self_meta (do_if b (add_error m) v) = self_meta v"
  "self_meta (do_if b (add_warning m) v) = self_meta v"
  "self_title (do_if b (add_error m) v) = self_title v"
  "self_title (do_if b (add_warning m) v) = self_title v"
  "self_context (do_if b (add_error m) v) = self_context v"
  "self_context (do_if b (add_warning m) v) = self_context v"
  "self_finalization (do_if b (add_error m) v) = self_finalization v"
  "self_finalization (do_if b (add_warning m) v) = self_finalization v"
  by (simp_all add: do_if_def)

lemma structure_fields:
  "self_steps (validate_structure v) = self_steps v"
  "self_meta (validate_structure v) = self_meta v"
  "self_title (validate_structure v) = self_title v"
  "self_context (validate_structure v) = self_context v"
  "self_finalization (validate_structure v) = self_finalization v"
  by (simp_all add: validate_structure_def Let_def)

lemma structure_errors:
  "self_errors (validate_structure v) =
     self_errors v @ (if \<not> truthy (self_title v) then [MSG_NO_TITLE] else [])
       @ (if self_steps v = [] then [MSG_NO_STEPS] else [])"
  by (simp add: validate_structure_def Let_def)

lemma structure_warnings:
  "self_warnings (validate_structure v) =
     self_warnings v @ (if self_meta v = [] then [MSG_NO_META] else [])
       @ (if \<not> truthy (self_finalization v) then [MSG_NO_FINALIZATION] else [])"
  by (simp add: validate_structure_def Let_def)

lemma step_fields:
  "self_steps (validate_step n st v) = self_steps v"
  "self_meta (validate_step n st v) = self_meta v"
  "self_title (validate_step n st v) = self_title v"
  "self_context (validate_step n st v) = self_context v"
  "self_finalization (validate_step n st v) = self_finalization v"
  by (cases "save_as st"; simp add: validate_step_def Let_def)+

lemma step_errors:
  "self_errors (validate_step n st v) =
     self_errors v @ (if \<not> truthy (task st) then [msg_no_task st] else [])
       @ (if flexibility_level st \<notin> set VALID_FLEXIBILITY_LEVELS then [msg_bad_level st] else [])"
  by (cases "save_as st"; simp add: validate_step_def Let_def)

lemma step_warnings:
  "self_warnings (validate_step n st v) =
     self_warnings v
       @ (if truthy (task st) \<and> length (case task st of Some t \<Rightarrow> t | None \<Rightarrow> []) < 10
          then [msg_brief_task st] else [])
       @ (if \<not> truthy (save_as st) \<and> number st < int n then [msg_no_save_as st] else [])
       @ (if success_criteria st = [] then [msg_no_criteria st] else [])
       @ (if truthy (save_as st) \<and> \<not> startswith (the (save_as st)) (ustr ''/'')
          then [msg_relative_path st] else [])"
  by (cases "save_as st"; simp add: validate_step_def Let_def truthy_def)

lemma foldl_appends:
  assumes "\<And>st w. f (g st w) = f w @ h st"
  shows "f (foldl (\<lambda>w st. g st w) v sts) = f v @ concat (map h sts)"
  by (induction sts arbitrary: v) (simp_all add: assms)

lemma foldl_keeps:
  assumes "\<And>st w. f (g st w) = f w"
  shows "f (foldl (\<lambda>w st. g st w) v sts) = f v"
  by (induction sts arbitrary: v) (simp_all add: assms)

lemma steps_fields:
  "self_steps (validate_steps v) = self_steps v"
  "self_meta (validate_steps v) = self_meta v"
  "self_title (validate_steps v) = self_title v"
  "self_context (validate_steps v) = self_context v"
  "self_finalization (validate_steps v) = self_finalization v"
  unfolding validate_steps_def
  by (rule foldl_keeps, rule step_fields)+

lemma steps_errors:
  "self_errors (validate_steps v) =
     self_errors v @ concat (map (\<lambda>st.
       (if \<not> truthy (task st) then [msg_no_task st] else [])
       @ (if flexibility_level st \<notin> set VALID_FLEXIBILITY_LEVELS then [msg_bad_level st] else []))
       (self_steps v))"
  unfolding validate_steps_def
  by (rule foldl_appends) (rule step_errors)

lemma steps_warnings:
  "self_warnings (validate_steps v) =
     self_warnings v @ concat (map (\<lambda>st.
       (if truthy (task st) \<and> length (case task st of Some t \<Rightarrow> t | None \<Rightarrow> []) < 10
          then [msg_brief_task st] else [])
       @ (if \<not> truthy (save_as st) \<and> number st < int (length (self_steps v))
          then [msg_no_save_as st] else [])
       @ (if success_criteria st = [] then [msg_no_criteria st] else [])
       @ (if truthy (save_as st) \<and> \<not> startswith (the (save_as st)) (ustr ''/'')
          then [msg_relative_path st] else []))
       (self_steps v))"
  unfolding validate_steps_def
  by (rule foldl_appends) (rule step_warnings)

lemma flow_fields:
  "self_steps (validate_step_flow v) = self_steps v"
  "self_meta (validate_step_flow v) = self_meta v"
  "self_title (validate_step_flow v) = self_title v"
  "self_context (validate_step_flow v) = self_context v"
  "self_finalization (validate_step_flow v) = self_finalization v"
  by (simp_all add: validate_step_flow_def Let_def)

lemma length_card_distinct: "length xs \<noteq> card (set xs) \<longleftrightarrow> \<not> distinct xs"
proof
  assume "length xs \<noteq> card (set xs)"
  then show "\<not> distinct xs" using distinct_card[of xs] by auto
next
  assume "\<not> distinct xs"
  then show "length xs \<noteq> card (set xs)" using card_distinct[of xs] by auto
qed

lemma flow_errors:
  "self_errors (validate_step_flow v) =
     self_errors v @ (if self_steps v \<noteq> [] \<and> \<not> distinct (map number (self_steps v))
                      then [MSG_DUPLICATE] else [])"
  unfolding validate_step_flow_def Let_def length_card_distinct
  by (simp del: distinct_map)

lemma flow_warnings:
  "self_warnings (validate_step_flow v) =
     self_warnings v
       @ (if self_steps v \<noteq> [] \<and>
             sort (map number (self_steps v)) \<noteq> map int [1 ..< length (self_steps v) + 1]
          then [msg_not_sequential (sort (map number (self_steps v)))
                  (map int [1 ..< length (self_steps v) + 1])] else [])
       @ (if self_steps v \<noteq> [] \<and> has_gap (map number (self_steps v)) then [MSG_GAP] else [])"
  by (simp add: validate_step_flow_def Let_def)

section \<open>The parser leaves the messages alone\<close>

lemma bind_InrE:
  assumes "bind x f = Inr y"
  obtains a where "x = Inr a" and "f a = Inr y"
  using assms by (cases x) (simp_all add: bind_def)

lemma extract_title_messages:
  "extract_title v = Inr v' \<Longrightarrow>
     self_errors v' = self_errors v \<and> self_warnings v' = self_warnings v"
  by (cases "re_search title_pattern (self_content v) [MULTILINE]")
     (auto simp: extract_title_def elim!: bind_InrE)

lemma extract_meta_messages:
  "extract_meta v = Inr v' \<Longrightarrow>
     self_errors v' = self_errors v \<and> self_warnings v' = self_warnings v"
  by (cases "re_search meta_pattern (self_content v) [DOTALL, IGNORECASE]")
     (auto simp: extract_meta_def elim!: bind_InrE)

lemma extract_context_messages:
  "extract_context v = Inr v' \<Longrightarrow>
     self_errors v' = self_errors v \<and> self_warnings v' = self_warnings v"
  by (cases "re_search context_pattern (self_content v) [DOTALL, IGNORECASE]")
     (auto simp: extract_context_def elim!: bind_InrE)

lemma extract_steps_messages:
  "extract_steps v = Inr v' \<Longrightarrow>
     self_errors v' = self_errors v \<and> self_warnings v' = self_warnings v"
  by (auto simp: extract_steps_def elim!: bind_InrE)

lemma extract_finalization_messages:
  "extract_finalization v = Inr v' \<Longrightarrow>
     self_errors v' = self_errors v \<and> self_warnings v' = self_warnings v"
  by (cases "re_search finalization_pattern (self_content v) [DOTALL, IGNORECASE]")
     (auto simp: extract_finalization_def elim!: bind_InrE)

lemma parse_document_messages:
  assumes "parse_document v = Inr v'"
  shows "self_errors v' = self_errors v \<and> self_warnings v' = self_warnings v"
proof -
  from assms obtain v1 v2 v3 v4 where
    "extract_title v = Inr v1" "extract_meta v1 = Inr v2" "extract_context v2 = Inr v3"
    "extract_steps v3 = Inr v4" "extract_finalization v4 = Inr v'"
    unfolding parse_document_def by (elim bind_InrE)
  then show ?thesis
    using extract_title_messages[of v v1] extract_meta_messages[of v1 v2]
      extract_context_messages[of v2 v3] extract_steps_messages[of v3 v4]
      extract_finalization_messages[of v4 v']
    by simp
qed

lemma parsed_messages:
  assumes "parse_document (init content) = Inr v"
  shows "self_errors v = []" and "self_warnings v = []"
  using parse_document_messages[OF assms] by (simp_all add: init_def)

lemma validate_parsed:
  assumes "parse_document (init content) = Inr v"
  shows "validate content =
           Inr (result_of (validate_step_flow (validate_steps (validate_structure v))))"
  by (simp add: validate_def bind_def assms)

lemma result_errors:
  assumes "parse_document (init content) = Inr v"
  shows "errors (result_of (validate_step_flow (validate_steps (validate_structure v)))) =
     (if \<not> truthy (self_title v) then [MSG_NO_TITLE] else [])
     @ (if self_steps v = [] then [MSG_NO_STEPS] else [])
     @ concat (map (\<lambda>st.
         (if \<not> truthy (task st) then [msg_no_task st] else [])
         @ (if flexibility_level st \<notin> set VALID_FLEXIBILITY_LEVELS
            then [msg_bad_level st] else []))
         (self_steps v))
     @ (if self_steps v \<noteq> [] \<and> \<not> distinct (map number (self_steps v))
        then [MSG_DUPLICATE] else [])"
  by (simp add: result_of_def flow_errors steps_errors structure_errors steps_fields
        structure_fields parsed_messages[OF assms] del: distinct_map)

lemma result_warnings:
  assumes "parse_document (init content) = Inr v"
  shows "warnings (result_of (validate_step_flow (validate_steps (validate_structure v)))) =
     (if self_meta v = [] then [MSG_NO_META] else [])
     @ (if \<not> truthy (self_finalization v) then [MSG_NO_FINALIZATION] else [])
     @ concat (map (\<lambda>st.
         (if truthy (task st) \<and> length (case task st of Some t \<Rightarrow> t | None \<Rightarrow> []) < 10
          then [msg_brief_task st] else [])
         @ (if \<not> truthy (save_as st) \<and> number st < int (length (self_steps v))
            then [msg_no_save_as st] else [])
         @ (if success_criteria st = [] then [msg_no_criteria st] else [])
         @ (if truthy (save_as st) \<and> \<not> startswith (the (save_as st)) (ustr ''/'')
            then [msg_relative_path st] else []))
         (self_steps v))
     @ (if self_steps v \<noteq> [] \<and>
           sort (map number (self_steps v)) \<noteq> map int [1 ..< length (self_steps v) + 1]
        then [msg_not_sequential (sort (map number (self_steps v)))
                (map int [1 ..< length (self_steps v) + 1])] else [])
     @ (if self_steps v \<noteq> [] \<and> has_gap (map number (self_steps v)) then [MSG_GAP] else [])"
  by (simp add: result_of_def flow_warnings steps_warnings structure_warnings steps_fields
        structure_fields parsed_messages[OF assms])

section \<open>The messages are told apart by how they begin\<close>

lemma hd_differs: "hd a \<noteq> hd b \<Longrightarrow> a \<noteq> b"
  by auto

lemma hd_messages:
  "hd MSG_NO_TITLE = 77" "hd MSG_NO_STEPS = 87" "hd MSG_NO_META = 67"
  "hd MSG_NO_FINALIZATION = 67" "hd MSG_DUPLICATE = 68" "hd MSG_GAP = 71"
  "hd (msg_not_sequential found expected) = 83"
  by (simp_all add: MSG_NO_TITLE_def MSG_NO_STEPS_def MSG_NO_META_def MSG_NO_FINALIZATION_def
        MSG_DUPLICATE_def MSG_GAP_def msg_not_sequential_def ustr_def)

lemma hd_step_messages:
  "hd (msg_no_task st) = 83" "hd (msg_brief_task st) = 83" "hd (msg_bad_level st) = 83"
  "hd (msg_no_save_as st) = 83" "hd (msg_no_criteria st) = 83"
  "hd (msg_relative_path st) = 83"
  by (simp_all add: msg_no_task_def msg_brief_task_def msg_bad_level_def msg_no_save_as_def
        msg_no_criteria_def msg_relative_path_def prefix_of_def ustr_def)

lemma count_concat_none:
  assumes "\<And>x. x \<in> set xs \<Longrightarrow> m \<notin> set (h x)"
  shows "count_list (concat (map h xs)) m = 0"
  using assms by (induction xs) (simp_all add: count_list_0_iff)

lemma not_in_concat:
  assumes "\<And>x. x \<in> set xs \<Longrightarrow> m \<notin> set (h x)"
  shows "m \<notin> set (concat (map h xs))"
  using assms by auto

section \<open>Duplicate step numbers\<close>

text \<open>
  Claim C8: the error for duplicate step numbers is among the errors of the result exactly
  once when some declared number occurs twice among the steps, whatever their places, and
  not at all when the declared numbers are all different.
\<close>

theorem duplicate_error_once:
  assumes "parse_document (init content) = Inr v"
  shows "\<exists>r. validate content = Inr r \<and>
           count_list (errors r) MSG_DUPLICATE =
             (if distinct (map number (self_steps v)) then 0 else 1)"
proof -
  let ?r = "result_of (validate_step_flow (validate_steps (validate_structure v)))"
  have 1: "MSG_DUPLICATE \<noteq> MSG_NO_TITLE" "MSG_DUPLICATE \<noteq> MSG_NO_STEPS"
    by (rule hd_differs, simp add: hd_messages)+
  have 2: "MSG_DUPLICATE \<noteq> msg_no_task st" "MSG_DUPLICATE \<noteq> msg_bad_level st" for st
    by (rule hd_differs, simp add: hd_messages hd_step_messages)+
  have 3: "count_list (concat (map (\<lambda>st.
         (if \<not> truthy (task st) then [msg_no_task st] else [])
         @ (if flexibility_level st \<notin> set VALID_FLEXIBILITY_LEVELS
            then [msg_bad_level st] else []))
         (self_steps v))) MSG_DUPLICATE = 0"
    by (rule count_concat_none) (simp add: 2)
  have 4: "self_steps v = [] \<Longrightarrow> distinct (map number (self_steps v))"
    by simp
  have "count_list (errors ?r) MSG_DUPLICATE =
          (if distinct (map number (self_steps v)) then 0 else 1)"
    unfolding result_errors[OF assms] count_list_append 3
    using 1 4 by (simp del: distinct_map)
  with validate_parsed[OF assms] show ?thesis
    by (intro exI[of _ ?r] conjI)
qed

section \<open>An empty Meta section\<close>

text \<open>
  Claim C10: the warning that advises a Meta section is among the warnings, and
  \<open>has_meta\<close> is false, exactly when the parsed meta map is empty. Only the map is looked
  at, so a Meta heading over lines without a colon counts as no Meta section at all.
\<close>

theorem empty_meta_is_absent_meta:
  assumes "parse_document (init content) = Inr v"
  shows "\<exists>r. validate content = Inr r \<and>
           (MSG_NO_META \<in> set (warnings r) \<longleftrightarrow> self_meta v = []) \<and>
           (has_meta (info r) \<longleftrightarrow> self_meta v \<noteq> [])"
proof -
  let ?r = "result_of (validate_step_flow (validate_steps (validate_structure v)))"
  have 1: "MSG_NO_META \<noteq> MSG_NO_FINALIZATION" "MSG_NO_META \<noteq> MSG_GAP"
    by (simp_all add: MSG_NO_META_def MSG_NO_FINALIZATION_def MSG_GAP_def ustr_def)
  have 2: "MSG_NO_META \<noteq> msg_brief_task st" "MSG_NO_META \<noteq> msg_no_save_as st"
    "MSG_NO_META \<noteq> msg_no_criteria st" "MSG_NO_META \<noteq> msg_relative_path st" for st
    by (rule hd_differs, simp add: hd_messages hd_step_messages)+
  have 3: "MSG_NO_META \<noteq> msg_not_sequential found expected" for found expected
    by (rule hd_differs) (simp add: hd_messages)
  define W where "W = concat (map (\<lambda>st.
         (if truthy (task st) \<and> length (case task st of Some t \<Rightarrow> t | None \<Rightarrow> []) < 10
          then [msg_brief_task st] else [])
         @ (if \<not> truthy (save_as st) \<and> number st < int (length (self_steps v))
            then [msg_no_save_as st] else [])
         @ (if success_criteria st = [] then [msg_no_criteria st] else [])
         @ (if truthy (save_as st) \<and> \<not> startswith (the (save_as st)) (ustr ''/'')
            then [msg_relative_path st] else []))
         (self_steps v))"
  have 4: "MSG_NO_META \<notin> set W"
    unfolding W_def by (rule not_in_concat) (simp add: 2)
  have "MSG_NO_META \<in> set (warnings ?r) \<longleftrightarrow> self_meta v = []"
    unfolding result_warnings[OF assms] W_def[symmetric]
    using 1 3 4 by simp
  moreover have "has_meta (info ?r) \<longleftrightarrow> self_meta v \<noteq> []"
    by (simp add: result_of_def flow_fields steps_fields structure_fields)
  ultimately show ?thesis
    using validate_parsed[OF assms] by (intro exI[of _ ?r] conjI)
qed

section \<open>Steps numbered 1 and 3\<close>

text \<open>
  Claim C9: the warning for a gap in the numbering is among the warnings of a result at
  most once. When the declared numbers of the steps are 1 and 3, the flow rule adds the
  warning that the numbers are not sequential and the warning for the gap, in this order,
  after the warnings of the other rules, and adds no error to theirs.
\<close>

theorem gap_warning_once:
  assumes "parse_document (init content) = Inr v"
  shows "\<exists>r. validate content = Inr r \<and>
           count_list (warnings r) MSG_GAP \<le> 1 \<and>
           (sort (map number (self_steps v)) = [1, 3] \<longrightarrow>
              warnings r = self_warnings (validate_steps (validate_structure v))
                             @ [msg_not_sequential [1, 3] [1, 2], MSG_GAP] \<and>
              errors r = self_errors (validate_steps (validate_structure v)))"
proof -
  let ?r = "result_of (validate_step_flow (validate_steps (validate_structure v)))"
  have 1: "MSG_GAP \<noteq> MSG_NO_META" "MSG_GAP \<noteq> MSG_NO_FINALIZATION"
    by (rule hd_differs, simp add: hd_messages)+
  have 2: "MSG_GAP \<noteq> msg_brief_task st" "MSG_GAP \<noteq> msg_no_save_as st"
    "MSG_GAP \<noteq> msg_no_criteria st" "MSG_GAP \<noteq> msg_relative_path st" for st
    by (rule hd_differs, simp add: hd_messages hd_step_messages)+
  have 3: "MSG_GAP \<noteq> msg_not_sequential found expected" for found expected
    by (rule hd_differs) (simp add: hd_messages)
  have 4: "count_list (concat (map (\<lambda>st.
         (if truthy (task st) \<and> length (case task st of Some t \<Rightarrow> t | None \<Rightarrow> []) < 10
          then [msg_brief_task st] else [])
         @ (if \<not> truthy (save_as st) \<and> number st < int (length (self_steps v))
            then [msg_no_save_as st] else [])
         @ (if success_criteria st = [] then [msg_no_criteria st] else [])
         @ (if truthy (save_as st) \<and> \<not> startswith (the (save_as st)) (ustr ''/'')
            then [msg_relative_path st] else []))
         (self_steps v))) MSG_GAP = 0"
    by (rule count_concat_none) (simp add: 2)
  have once: "count_list (warnings ?r) MSG_GAP \<le> 1"
    unfolding result_warnings[OF assms] count_list_append 4
    using 1 3 by simp
  have two: "warnings ?r = self_warnings (validate_steps (validate_structure v))
                             @ [msg_not_sequential [1, 3] [1, 2], MSG_GAP] \<and>
             errors ?r = self_errors (validate_steps (validate_structure v))"
    if s: "sort (map number (self_steps v)) = [1, 3]"
  proof -
    from s have "length (sort (map number (self_steps v))) = 2" by simp
    then have l: "length (self_steps v) = 2" by simp
    then have ne: "self_steps v \<noteq> []" by auto
    from s have "distinct (sort (map number (self_steps v)))" by simp
    then have d: "distinct (map number (self_steps v))" by (simp del: distinct_map)
    have e: "map int [1 ..< length (self_steps v) + 1] = [1, 2]"
      by (simp add: l upt_rec)
    have g: "has_gap (map number (self_steps v))"
      by (simp add: has_gap_def s l)
    have "self_warnings (validate_step_flow (validate_steps (validate_structure v))) =
            self_warnings (validate_steps (validate_structure v))
              @ [msg_not_sequential [1, 3] [1, 2], MSG_GAP]"
      unfolding flow_warnings steps_fields structure_fields e s
      using ne g by simp
    moreover have "self_errors (validate_step_flow (validate_steps (validate_structure v))) =
            self_errors (validate_steps (validate_structure v))"
      unfolding flow_errors steps_fields structure_fields
      using d by (simp del: distinct_map)
    ultimately show ?thesis
      by (simp add: result_of_def)
  qed
  from once two validate_parsed[OF assms] show ?thesis
    by (intro exI[of _ ?r] conjI impI) simp_all
qed

section \<open>The rules on given documents\<close>

theorem duplicate_error_once_witness:
  "\<exists>r. validate (ustr ''## Step 1: a'' @ NL # ustr ''x'' @ NL # ustr ''## Step 1: b'' @ NL # ustr ''y'')
         = Inr r \<and>
       count_list (errors r) MSG_DUPLICATE = 1"
proof -
  let ?doc = "ustr ''## Step 1: a'' @ NL # ustr ''x'' @ NL # ustr ''## Step 1: b'' @ NL # ustr ''y''"
  have "case parse_document (init ?doc) of
          Inl e \<Rightarrow> False
        | Inr v \<Rightarrow> map number (self_steps v) = [1, 1]"
    by (simp only: ev_defs ev_int ev_lib ev_arith cong: ev_cong; simp)
  then obtain v where v: "parse_document (init ?doc) = Inr v"
    and n: "map number (self_steps v) = [1, 1]"
    by (cases "parse_document (init ?doc)") simp_all
  from duplicate_error_once[OF v] n show ?thesis
    by simp
qed

theorem empty_meta_is_absent_meta_witness:
  "\<exists>r. validate (ustr ''## Meta'' @ NL # ustr ''x'') = Inr r \<and>
       MSG_NO_META \<in> set (warnings r) \<and> \<not> has_meta (info r)"
proof -
  let ?doc = "ustr ''## Meta'' @ NL # ustr ''x''"
  have "case parse_document (init ?doc) of
          Inl e \<Rightarrow> False
        | Inr v \<Rightarrow> self_meta v = []"
    by (simp only: ev_defs ev_int ev_lib ev_arith cong: ev_cong; simp)
  then obtain v where v: "parse_document (init ?doc) = Inr v" and m: "self_meta v = []"
    by (cases "parse_document (init ?doc)") simp_all
  from empty_meta_is_absent_meta[OF v] m show ?thesis
    by simp
qed

theorem gap_warning_once_witness:
  "\<exists>r. validate (ustr ''## Step 1: a'' @ NL # ustr ''x'' @ NL # ustr ''## Step 3: b'' @ NL # ustr ''y'')
         = Inr r \<and>
       count_list (warnings r) MSG_GAP \<le> 1 \<and>
       msg_not_sequential [1, 3] [1, 2] \<in> set (warnings r) \<and>
       MSG_GAP \<in> set (warnings r)"
proof -
  let ?doc = "ustr ''## Step 1: a'' @ NL # ustr ''x'' @ NL # ustr ''## Step 3: b'' @ NL # ustr ''y''"
  have "case parse_document (init ?doc) of
          Inl e \<Rightarrow> False
        | Inr v \<Rightarrow> map number (self_steps v) = [1, 3]"
    by (simp only: ev_defs ev_int ev_lib ev_arith cong: ev_cong; simp)
  then obtain v where v: "parse_document (init ?doc) = Inr v"
    and n: "map number (self_steps v) = [1, 3]"
    by (cases "parse_document (init ?doc)") simp_all
  from n have s: "sort (map number (self_steps v)) = [1, 3]"
    by simp
  from gap_warning_once[OF v] s obtain r where
    "validate ?doc = Inr r" "count_list (warnings r) MSG_GAP \<le> 1"
    "warnings r = self_warnings (validate_steps (validate_structure v))
                    @ [msg_not_sequential [1, 3] [1, 2], MSG_GAP]"
    by auto
  then show ?thesis
    by (intro exI[of _ r]) simp
qed

section \<open>A well-formed document\<close>


section \<open>Repetitions over a text that is not given\<close>



lemma rep_lazy_here: "k p \<noteq> None \<Longrightarrow> rep_lazy P k p = k p"
  by (cases p; cases "snd p") auto


lemma eq_char_hash: "eq_char fl 35 c \<longleftrightarrow> c = 35"
  by (auto simp: eq_char_def fold_char_def)


lemma eq_char_numeral:
  "eq_char fl (numeral a) (numeral b) =
     (if IGNORECASE \<in> set fl then fold_char (numeral a) = fold_char (numeral b)
      else (numeral a :: nat) = numeral b)"
  by (rule eq_char_def)

lemma fold_char_numeral:
  "fold_char (numeral k) =
     (if 65 \<le> (numeral k :: nat) \<and> numeral k \<le> (90::nat) then numeral k + 32
      else if numeral k = (304::nat) \<or> numeral k = (305::nat) then 105
      else if numeral k = (383::nat) then 115
      else if numeral k = (8490::nat) then 107
      else numeral k)"
  by (rule fold_char_def)




lemma isspace_numeral:
  "isspace (numeral k) =
     (if numeral k \<le> (32::nat) then (if numeral k \<le> (13::nat) then 9 \<le> (numeral k :: nat)
                                      else 28 \<le> (numeral k :: nat))
      else if numeral k < (133::nat) then False
      else (numeral k = (133::nat) \<or> numeral k = (160::nat) \<or> numeral k = (5760::nat) \<or>
            (8192 \<le> (numeral k :: nat) \<and> numeral k \<le> (8202::nat)) \<or>
            numeral k = (8232::nat) \<or> numeral k = (8233::nat) \<or> numeral k = (8239::nat) \<or>
            numeral k = (8287::nat) \<or> numeral k = (12288::nat)))"
  by (rule isspace_lazy)

section \<open>The body of the Finalization section\<close>





lemma rep_greedy_upto:
  assumes "list_all P xs" and "rest = [] \<or> \<not> P (hd rest)"
    and "k (if xs = [] then prev else Some (last xs), rest) \<noteq> None"
  shows "rep_greedy P k (prev, xs @ rest) = k (if xs = [] then prev else Some (last xs), rest)"
  using assms
proof (induction xs arbitrary: prev)
  case Nil
  then show ?case by (cases rest) simp_all
next
  case (Cons x xs)
  from Cons.prems(3) have n: "k (if xs = [] then Some x else Some (last xs), rest) \<noteq> None"
    by (cases xs) simp_all
  with Cons.IH[of "Some x"] Cons.prems(1,2) have
    "rep_greedy P k (Some x, xs @ rest) = k (if xs = [] then Some x else Some (last xs), rest)"
    by simp
  moreover from n obtain r where
    "k (if xs = [] then Some x else Some (last xs), rest) = Some r"
    by auto
  ultimately show ?case
    using Cons.prems(1) by (cases xs) simp_all
qed

lemma dot_line: "10 \<notin> set xs \<Longrightarrow> list_all (in_class fl Dot) xs = True"
  by (induction xs) (simp_all add: NL_def)

lemma consumed_prefix: "consumed (pv, x # (xs @ rest)) (pv', rest) = x # xs"
  by (simp add: consumed_def)

lemma search_skip_bol_hash:
  assumes "35 \<notin> set pre"
  shows "search_from fl (Seq Bol (Seq (Lit (35 # s)) r)) (prev, pre @ rest) =
           search_from fl (Seq Bol (Seq (Lit (35 # s)) r))
             (if pre = [] then prev else Some (last pre), rest)"
  using assms by (induction pre arbitrary: prev) (simp_all add: eq_char_hash)

section \<open>The label of the title\<close>

lemmas ev_title =
  re_search_def title_pattern_def NL_def ustr_def one_then_def eq_char_numeral
  fold_char_numeral isspace_numeral group_def group_or_def bind_def
  seqs.simps in_class.simps match_lit.simps rep_greedy.simps rmatch.simps search_from.simps

text \<open>
  Claim C3, amended: the label \<open>Workflow:\<close> is matched as it is written, with its capital
  letter. When the first \<open>#\<close> of the document starts a line that reads \<open># Workflow: \<close> and
  then a text that starts with a code point that is not white space, that text, trimmed, is
  the title.
\<close>

theorem workflow_label_stripped:
  assumes "self_content v = pre @ ustr ''# Workflow: '' @ x # xs @ rest"
    and "35 \<notin> set pre" and "pre = [] \<or> last pre = NL"
    and "\<not> isspace x" and "NL \<notin> set xs" and "rest = [] \<or> hd rest = NL"
  shows "extract_title v = Inr (v\<lparr>self_title := Some (strip (x # xs))\<rparr>)"
proof -
  have bol: "at_bol [MULTILINE] (if pre = [] then None else Some (last pre), s) = True" for s
    using assms(3) by (auto simp: at_bol_def)
  have eol: "at_eol [MULTILINE] (p, rest) = True" for p
    using assms(6) by (auto simp: at_eol_def)
  have nl: "(x = 10) = False" "10 \<notin> set xs"
    using assms(4,5) by (auto simp: isspace_def NL_def)
  have stop: "(rest = [] \<or> hd rest = 10) = True"
    using assms(6) by (simp add: NL_def)
  show ?thesis
    unfolding extract_title_def assms(1)
    using assms(2,4) bol eol nl stop
    by (simp only: ev_title ev_lib ev_arith search_skip_bol_hash rep_greedy_upto dot_line
          consumed_prefix cong: ev_cong)
qed

theorem workflow_label_stripped_witness:
  "extract_title (init (ustr ''# Workflow: Deploy'')) =
     Inr ((init (ustr ''# Workflow: Deploy''))\<lparr>self_title := Some (ustr ''Deploy'')\<rparr>)"
  using workflow_label_stripped[of "init (ustr ''# Workflow: Deploy'')" "[]" 68 "ustr ''eploy''" "[]"]
  by (simp add: init_def ustr_def NL_def isspace_def strip_def)

text \<open>
  The claim as it stands, that the label is matched in any letter case, fails on the
  heading \<open># workflow: Deploy\<close>: the label stays in the title.
\<close>

theorem title_label_in_lower_case:
  "parse_document (init (ustr ''# workflow: Deploy'')) =
     Inr ((init (ustr ''# workflow: Deploy''))\<lparr>self_title := Some (ustr ''workflow: Deploy'')\<rparr>)"
  by (simp only: ev_defs ev_int ev_lib ev_arith cong: ev_cong; simp)







section \<open>The fenced blocks of the dependencies\<close>









end
